theory Spec2Isabelle
  imports Main "HOL-Library.Sublist" "HOL-Library.Multiset"
begin

unbundle bit_operations_syntax

section \<open>Go strings\<close>

text \<open>
  A Go string is a sequence of bytes; it is modelled as \<open>string\<close> (a list of
  \<open>char\<close>, one per byte). The functions below are the ones of package
  \<^verbatim>\<open>strings\<close> that \<^verbatim>\<open>internal/lsp/elasticserver.go\<close> calls. The
  source calls \<^verbatim>\<open>Count\<close>, \<^verbatim>\<open>LastIndex\<close>, \<^verbatim>\<open>Split\<close> and
  \<^verbatim>\<open>SplitAfter\<close> with a separator of one byte
  (\<^verbatim>\<open>"-"\<close>, \<^verbatim>\<open>"@"\<close>, \<^verbatim>\<open>string(filepath.Separator)\<close>),
  so these four take the separator as a \<open>char\<close>; the one call of \<^verbatim>\<open>Split\<close>
  with a longer separator, in \<^verbatim>\<open>getModulePath\<close>, is \<open>SplitOn\<close>.
\<close>

definition HasPrefix :: "string \<Rightarrow> string \<Rightarrow> bool" where
  "HasPrefix s pre = (length s \<ge> length pre \<and> take (length pre) s = pre)"

definition HasSuffix :: "string \<Rightarrow> string \<Rightarrow> bool" where
  "HasSuffix s suf = (length s \<ge> length suf \<and> drop (length s - length suf) s = suf)"

definition TrimPrefix :: "string \<Rightarrow> string \<Rightarrow> string" where
  "TrimPrefix s pre = (if HasPrefix s pre then drop (length pre) s else s)"

definition TrimSuffix :: "string \<Rightarrow> string \<Rightarrow> string" where
  "TrimSuffix s suf = (if HasSuffix s suf then take (length s - length suf) s else s)"

text \<open>\<^verbatim>\<open>strings.Index\<close>: the index of the first instance of the substring, or -1.\<close>

fun Index :: "string \<Rightarrow> string \<Rightarrow> int" where
  "Index [] substr = (if substr = [] then 0 else -1)"
| "Index (b # s) substr =
     (if HasPrefix (b # s) substr then 0
      else (let i = Index s substr in if i < 0 then -1 else i + 1))"

definition Contains :: "string \<Rightarrow> string \<Rightarrow> bool" where
  "Contains s substr = (Index s substr \<ge> 0)"

definition IndexByte :: "string \<Rightarrow> char \<Rightarrow> int" where
  "IndexByte s c = (if c \<in> set s then int (length (takeWhile (\<lambda>b. b \<noteq> c) s)) else -1)"

text \<open>\<^verbatim>\<open>strings.LastIndex(s, sep)\<close> for a one-byte \<^verbatim>\<open>sep\<close>: the loop of
  \<^verbatim>\<open>LastIndexByte\<close>, the last index holding the byte, or -1.\<close>

fun LastIndex :: "string \<Rightarrow> char \<Rightarrow> int" where
  "LastIndex [] c = -1"
| "LastIndex (b # s) c =
     (let i = LastIndex s c in if i \<ge> 0 then i + 1 else if b = c then 0 else -1)"

text \<open>\<^verbatim>\<open>strings.Count(s, sep)\<close> for a one-byte \<^verbatim>\<open>sep\<close>: the number of bytes
  of \<open>s\<close> equal to it.\<close>

fun Count :: "string \<Rightarrow> char \<Rightarrow> int" where
  "Count [] c = 0"
| "Count (b # s) c = (if b = c then 1 + Count s c else Count s c)"

text \<open>
  \<^verbatim>\<open>strings.genSplit(s, sep, sepSave, -1)\<close>: cut at every instance of the
  separator, keeping \<open>sepSave\<close> bytes of it at the end of each piece.
  \<^verbatim>\<open>Split\<close> keeps none, \<^verbatim>\<open>SplitAfter\<close> keeps the separator.
\<close>

function genSplit :: "string \<Rightarrow> char \<Rightarrow> nat \<Rightarrow> string list" where
  "genSplit s sep sepSave =
     (let m = IndexByte s sep in
      if m < 0 then [s]
      else take (nat m + sepSave) s # genSplit (drop (nat m + 1) s) sep sepSave)"
  by pat_completeness auto
termination
proof (relation "measure (\<lambda>(s, sep, sepSave). length s)")
  fix s :: string and sep :: char and sepSave :: nat and m :: int
  assume "m = IndexByte s sep" and "\<not> m < 0"
  then have "sep \<in> set s"
    by (simp add: IndexByte_def split: if_splits)
  then have "0 < length s"
    by (rule length_pos_if_in_set)
  then show "((drop (nat m + 1) s, sep, sepSave), (s, sep, sepSave))
      \<in> measure (\<lambda>(s, sep, sepSave). length s)"
    by simp
qed simp

declare genSplit.simps [simp del]

definition Split :: "string \<Rightarrow> char \<Rightarrow> string list" where
  "Split s sep = genSplit s sep 0"

definition SplitAfter :: "string \<Rightarrow> char \<Rightarrow> string list" where
  "SplitAfter s sep = genSplit s sep 1"

text \<open>
  \<^verbatim>\<open>strings.Split(s, sep)\<close> for a separator of any length, as
  \<^verbatim>\<open>getModulePath\<close> calls it: the loop of \<^verbatim>\<open>genSplit\<close> with
  \<^verbatim>\<open>strings.Index\<close>. An empty separator cuts after every byte.
\<close>

function SplitOn :: "string \<Rightarrow> string \<Rightarrow> string list" where
  "SplitOn s sep =
     (if sep = [] then map (\<lambda>b. [b]) s
      else
        (let m = Index s sep in
         if m < 0 then [s]
         else take (nat m) s # SplitOn (drop (nat m + length sep) s) sep))"
  by pat_completeness auto
termination
proof (relation "measure (\<lambda>(s, sep). length s)")
  fix s sep :: string and m :: int
  assume sep: "sep \<noteq> []" and m: "m = Index s sep" "\<not> m < 0"
  from sep m have "s \<noteq> []"
    by (cases s) auto
  with sep show "((drop (nat m + length sep) s, sep), (s, sep)) \<in> measure (\<lambda>(s, sep). length s)"
    by simp
qed simp

declare SplitOn.simps [simp del]

text \<open>\<^verbatim>\<open>filepath.Separator\<close> on the platforms the repository builds for
  (Linux and macOS, see \<^verbatim>\<open>.travis.yml\<close>).\<close>

definition Separator :: char where
  "Separator = CHR ''/''"

text \<open>\<^verbatim>\<open>strings.Join(elems, sep)\<close>.\<close>

fun strings_Join :: "string list \<Rightarrow> string \<Rightarrow> string" where
  "strings_Join [] sep = []"
| "strings_Join [x] sep = x"
| "strings_Join (x # y # ys) sep = x @ sep @ strings_Join (y # ys) sep"

text \<open>
  \<^verbatim>\<open>filepath.Clean\<close>, by the elements of the path: an empty element and
  \<^verbatim>\<open>.\<close> are dropped; \<^verbatim>\<open>..\<close> removes the element before it, is dropped at
  the root, and is kept at the start of a path that is not rooted. \<open>out\<close> holds the
  elements written so far.
\<close>

definition cleanElem :: "bool \<Rightarrow> string list \<Rightarrow> string \<Rightarrow> string list" where
  "cleanElem rooted out elem =
     (if elem = [] \<or> elem = ''.'' then out
      else if elem = ''..'' then
        (if out \<noteq> [] \<and> last out \<noteq> ''..'' then butlast out
         else if rooted then out
         else out @ [''..''])
      else out @ [elem])"

definition Clean :: "string \<Rightarrow> string" where
  "Clean path =
     (if path = [] then ''.''
      else
        (let rooted = (hd path = Separator);
             out = foldl (cleanElem rooted) [] (Split path Separator)
         in if rooted then [Separator] @ strings_Join out [Separator]
            else if out = [] then ''.''
            else strings_Join out [Separator]))"

text \<open>\<^verbatim>\<open>filepath.Join\<close>: the elements from the first non-empty one on, joined
  and cleaned.\<close>

definition Join :: "string list \<Rightarrow> string" where
  "Join elem =
     (case dropWhile (\<lambda>e. e = []) elem of
        [] \<Rightarrow> []
      | es \<Rightarrow> Clean (strings_Join es [Separator]))"

section \<open>Package locator and version resolution\<close>

text \<open>\<^verbatim>\<open>protocol.PackageLocator\<close>, with the three fields the source assigns.\<close>

record PackageLocator =
  Version :: string
  Name :: string
  RepoURI :: string

text \<open>The zero value \<^verbatim>\<open>protocol.PackageLocator{}\<close>.\<close>

definition emptyPackageLocator :: PackageLocator where
  "emptyPackageLocator = \<lparr>Version = '''', Name = '''', RepoURI = ''''\<rparr>"

text \<open>A \<^verbatim>\<open>*types.Package\<close>, by what the source reads of it:
  \<^verbatim>\<open>Name()\<close> and \<^verbatim>\<open>Path()\<close>. A nil pointer is \<open>None\<close>.\<close>

record types_Package =
  PkgName :: string
  PkgPath :: string

text \<open>
  What version resolution takes from outside the file: the environment variables
  \<^verbatim>\<open>GOPATH\<close> and \<^verbatim>\<open>GOROOT\<close>, \<^verbatim>\<open>semver.IsValid\<close> of
  \<^verbatim>\<open>internal/semver\<close> and \<^verbatim>\<open>vcs.RepoRootForImportPath\<close> (a network
  lookup; \<open>Inr\<close> holds the field \<^verbatim>\<open>Repo\<close> of its result, \<open>Inl\<close> its error).
  They are parameters of the model.
\<close>

record Env =
  GOPATH :: string
  GOROOT :: string
  IsValid :: "string \<Rightarrow> bool"
  RepoRootForImportPath :: "string \<Rightarrow> string + string"

definition pkgMod :: "Env \<Rightarrow> string" where
  "pkgMod e = Join [GOPATH e, ''pkg'', ''mod'']"

definition goRoot :: "Env \<Rightarrow> string" where
  "goRoot e = GOROOT e"

text \<open>
  The loop of \<^verbatim>\<open>getPkgVersionFast\<close>:
  \<^verbatim>\<open>for i := 1; i < len(strs); i++\<close>, appending \<^verbatim>\<open>substrs[0]\<close> to
  \<^verbatim>\<open>validVersion\<close> when it is a valid semantic version.
  \<^verbatim>\<open>substrs[0]\<close> is in range: \<^verbatim>\<open>Split\<close> never returns an empty slice
  (lemma \<open>Split_not_Nil\<close>).
\<close>

function validVersionLoop :: "(string \<Rightarrow> bool) \<Rightarrow> string list \<Rightarrow> nat \<Rightarrow> string list \<Rightarrow> string list" where
  "validVersionLoop valid strs i validVersion =
     (if i < length strs then
        (let substrs = Split (strs ! i) Separator in
         validVersionLoop valid strs (i + 1)
           (if valid (substrs ! 0) then validVersion @ [substrs ! 0] else validVersion))
      else validVersion)"
  by pat_completeness auto
termination
  by (relation "measure (\<lambda>(valid, strs, i, validVersion). length strs - i)") auto

declare validVersionLoop.simps [simp del]

definition getPkgVersionFast :: "(string \<Rightarrow> bool) \<Rightarrow> string \<Rightarrow> string" where
  "getPkgVersionFast valid loc =
     (let strs = SplitAfter loc CHR ''@'';
          validVersion = validVersionLoop valid strs 1 []
      in if length validVersion \<noteq> 1 then '''' else validVersion ! 0)"

text \<open>\<^verbatim>\<open>getPkgVersionSlow\<close> returns an error, always; \<open>Some\<close> holds its message.\<close>

definition getPkgVersionSlow :: "string option" where
  "getPkgVersionSlow = Some ''for now, there is no proper and efficient API to get the revision''"

text \<open>
  Lines 364 to 368 of \<^verbatim>\<open>getPkgVersion\<close>, the block between the extraction and
  the assignment to \<^verbatim>\<open>pkgLoc.Version\<close>, as a function of \<^verbatim>\<open>rev\<close> (written \<open>rv\<close>: \<open>rev\<close> is HOL's list reversal).
  The slice \<^verbatim>\<open>rev[i+1:]\<close> is in range: \<^verbatim>\<open>LastIndex\<close> returns a value from
  -1 to \<^verbatim>\<open>len(rev) - 1\<close>.
\<close>

definition pseudoVersionRev :: "string \<Rightarrow> string" where
  "pseudoVersionRev rv =
     (if Count rv CHR ''-'' = 2 then
        (let rv' = TrimSuffix rv ''+incompatible'';
             i = LastIndex rv' CHR ''-''
         in drop (nat (i + 1)) rv')
      else rv)"

definition getPkgVersion :: "Env \<Rightarrow> string \<Rightarrow> PackageLocator \<Rightarrow> string \<Rightarrow> PackageLocator" where
  "getPkgVersion e dir pkgLoc loc =
     (let rv = getPkgVersionFast (IsValid e) (TrimPrefix loc (Join [pkgMod e, dir])) in
      if rv = '''' \<and> getPkgVersionSlow \<noteq> None then pkgLoc
      else pkgLoc\<lparr>Version := pseudoVersionRev rv\<rparr>)"

definition collectPkgMetadata :: "Env \<Rightarrow> types_Package option \<Rightarrow> string \<Rightarrow> string \<Rightarrow> PackageLocator" where
  "collectPkgMetadata e pkg dir loc =
     (case pkg of
        None \<Rightarrow> emptyPackageLocator
      | Some p \<Rightarrow>
          (let pkgLocator = \<lparr>Version = '''', Name = PkgName p, RepoURI = PkgPath p\<rparr> in
           if HasPrefix loc dir \<or> HasPrefix loc (goRoot e) then pkgLocator
           else
             (let pkgLocator = getPkgVersion e dir pkgLocator loc in
              case RepoRootForImportPath e (PkgPath p) of
                Inr repo \<Rightarrow> pkgLocator\<lparr>RepoURI := repo\<rparr>
              | Inl err \<Rightarrow> pkgLocator)))"

section \<open>Symbol classifier\<close>

text \<open>
  \<^verbatim>\<open>protocol.SymbolKind\<close> is a number. Its constants are declared in package
  \<^verbatim>\<open>protocol\<close>, which is not among the sources; they carry the values the
  Language Server Protocol assigns. The source uses 0 for "no kind".
\<close>

type_synonym SymbolKind = nat

definition protocol_Package :: SymbolKind where "protocol_Package = 4"
definition protocol_Method :: SymbolKind where "protocol_Method = 6"
definition protocol_Field :: SymbolKind where "protocol_Field = 8"
definition protocol_Interface :: SymbolKind where "protocol_Interface = 11"
definition protocol_Function :: SymbolKind where "protocol_Function = 12"
definition protocol_Variable :: SymbolKind where "protocol_Variable = 13"
definition protocol_Constant :: SymbolKind where "protocol_Constant = 14"
definition protocol_String :: SymbolKind where "protocol_String = 15"
definition protocol_Number :: SymbolKind where "protocol_Number = 16"
definition protocol_Boolean :: SymbolKind where "protocol_Boolean = 17"
definition protocol_Array :: SymbolKind where "protocol_Array = 18"
definition protocol_Null :: SymbolKind where "protocol_Null = 21"
definition protocol_Struct :: SymbolKind where "protocol_Struct = 23"

text \<open>
  \<^verbatim>\<open>types.BasicInfo\<close> is a set of flags in an \<^verbatim>\<open>int\<close>; the flags are those of
  the standard library's \<^verbatim>\<open>go/types\<close>.
\<close>

type_synonym BasicInfo = int

definition IsBoolean :: BasicInfo where "IsBoolean = 1"
definition IsInteger :: BasicInfo where "IsInteger = 2"
definition IsUnsigned :: BasicInfo where "IsUnsigned = 4"
definition IsFloat :: BasicInfo where "IsFloat = 8"
definition IsComplex :: BasicInfo where "IsComplex = 16"
definition IsString :: BasicInfo where "IsString = 32"
definition IsUntyped :: BasicInfo where "IsUntyped = 64"
definition IsNumeric :: BasicInfo where "IsNumeric = IsInteger OR IsFloat OR IsComplex"

text \<open>
  The shapes \<^verbatim>\<open>Type().Underlying()\<close> can have (an underlying type is never a
  named type), and the implementations of \<^verbatim>\<open>types.Object\<close>.
  A \<^verbatim>\<open>*types.Func\<close> has a \<^verbatim>\<open>*types.Signature\<close> as its type, always; the
  model keeps its receiver (\<open>None\<close> for \<^verbatim>\<open>Recv() == nil\<close>, else the receiver's
  name).
\<close>

datatype Underlying =
    types_Basic BasicInfo
  | types_Array
  | types_Slice
  | types_Struct
  | types_Pointer
  | types_Tuple
  | types_Signature
  | types_Interface
  | types_Map
  | types_Chan

datatype Signature = Signature (Recv: "string option")

datatype ObjectShape =
    types_Const
  | types_Var (IsField: bool)
  | types_Nil
  | types_PkgName
  | types_Func Signature
  | types_TypeName Underlying
  | types_Label
  | types_Builtin

text \<open>A \<^verbatim>\<open>types.Object\<close>: its dynamic type with what the switch reads, and
  \<^verbatim>\<open>Name()\<close>, \<^verbatim>\<open>Pkg()\<close>, \<^verbatim>\<open>Pos()\<close>.\<close>

record Object =
  ObjShape :: ObjectShape
  ObjName :: string
  ObjPkg :: "types_Package option"
  ObjPos :: nat

fun getSymbolKind :: "Object \<Rightarrow> SymbolKind" where
  "getSymbolKind declObj =
     (case ObjShape declObj of
        types_Const \<Rightarrow> protocol_Constant
      | types_Var isField \<Rightarrow> (if isField then protocol_Field else protocol_Variable)
      | types_Nil \<Rightarrow> protocol_Null
      | types_PkgName \<Rightarrow> protocol_Package
      | types_Func s \<Rightarrow> (if Recv s = None then protocol_Function else protocol_Method)
      | types_TypeName u \<Rightarrow>
          (case u of
             types_Struct \<Rightarrow> protocol_Struct
           | types_Interface \<Rightarrow> protocol_Interface
           | types_Slice \<Rightarrow> protocol_Array
           | types_Array \<Rightarrow> protocol_Array
           | types_Basic info \<Rightarrow>
               (if info AND IsNumeric \<noteq> 0 then protocol_Number
                else if info AND IsBoolean \<noteq> 0 then protocol_Boolean
                else if info AND IsString \<noteq> 0 then protocol_String
                else 0)
           | _ \<Rightarrow> 0)
      | _ \<Rightarrow> 0)"

section \<open>Qualified names\<close>

text \<open>
  A function that can panic returns an \<open>outcome\<close>: its value, or \<open>Panics\<close> (an
  index or a slice out of range, a failed type assertion, a method call on nil).
\<close>

datatype 'a outcome = Returns 'a | Panics

text \<open>
  The nodes of \<^verbatim>\<open>go/ast\<close>, by what \<^verbatim>\<open>getQName\<close> reads of them: of a
  \<^verbatim>\<open>TypeSpec\<close> its \<^verbatim>\<open>Name.Name\<close>; of a \<^verbatim>\<open>Field\<close> and a
  \<^verbatim>\<open>ValueSpec\<close> the names in \<^verbatim>\<open>Names\<close>; of a \<^verbatim>\<open>FuncDecl\<close> its
  \<^verbatim>\<open>Recv\<close> (\<open>None\<close> for nil, else the \<^verbatim>\<open>Type\<close> of each field of
  \<^verbatim>\<open>Recv.List\<close>).
\<close>

datatype Expr = ast_Ident string | ast_StarExpr Expr | ast_OtherExpr

datatype Node =
    ast_StructType
  | ast_InterfaceType
  | ast_TypeSpec string
  | ast_Field "string list"
  | ast_ValueSpec "string list"
  | ast_FuncDecl "Expr list option"
  | ast_OtherNode

text \<open>
  The body of the loop \<^verbatim>\<open>for id, n := range astPath[1:]\<close>, for the node
  \<open>n\<close> (\<^verbatim>\<open>astPath[id+1]\<close>) and the accumulator \<^verbatim>\<open>qname\<close>; it returns the
  new accumulator. \<open>parent\<close> is \<^verbatim>\<open>astPath[id+2]\<close>, \<open>None\<close> when \<open>n\<close> is the
  last node of the path: reading it then is an index out of range. So is
  \<^verbatim>\<open>f.Recv.List[0]\<close> of an empty list, and a failed type assertion
  \<^verbatim>\<open>r.X.(*ast.Ident)\<close> panics.
\<close>

definition qnameStep :: "Node \<Rightarrow> Node option \<Rightarrow> string \<Rightarrow> string outcome" where
  "qnameStep n parent qname =
     (case n of
        ast_StructType \<Rightarrow>
          (case parent of
             None \<Rightarrow> Panics
           | Some (ast_TypeSpec name) \<Rightarrow> Returns (name @ ''.'' @ qname)
           | Some (ast_Field names) \<Rightarrow>
               (if length names \<noteq> 0 then Returns (names ! 0 @ ''.'' @ qname)
                else Returns qname)
           | Some (ast_ValueSpec names) \<Rightarrow>
               (if length names \<noteq> 0 then Returns (names ! 0 @ ''.'' @ qname)
                else Returns qname)
           | Some _ \<Rightarrow> Returns qname)
      | ast_InterfaceType \<Rightarrow>
          (case parent of
             None \<Rightarrow> Panics
           | Some (ast_TypeSpec name) \<Rightarrow> Returns (name @ ''.'' @ qname)
           | Some _ \<Rightarrow> Returns qname)
      | ast_FuncDecl recv \<Rightarrow>
          (case recv of
             None \<Rightarrow> Returns qname
           | Some [] \<Rightarrow> Panics
           | Some (ast_StarExpr (ast_Ident name) # _) \<Rightarrow> Returns (name @ ''.'' @ qname)
           | Some (ast_StarExpr _ # _) \<Rightarrow> Panics
           | Some (ast_Ident name # _) \<Rightarrow> Returns (name @ ''.'' @ qname)
           | Some (_ # _) \<Rightarrow> Returns ('''' @ ''.'' @ qname))
      | _ \<Rightarrow> Returns qname)"

text \<open>
  The loop itself, over the path from \<^verbatim>\<open>astPath[1]\<close> on: the parent of a node
  is the next node of the path.
\<close>

fun qnameLoop :: "Node list \<Rightarrow> string \<Rightarrow> string outcome" where
  "qnameLoop [] qname = Returns qname"
| "qnameLoop (n # rest) qname =
     (case qnameStep n (case rest of [] \<Rightarrow> None | parent # _ \<Rightarrow> Some parent) qname of
        Panics \<Rightarrow> Panics
      | Returns qname \<Rightarrow> qnameLoop rest qname)"

section \<open>The collaborators of the handlers\<close>

text \<open>
  The handlers call the type checker, the parser and the cache through the session and
  its views. These live in packages \<^verbatim>\<open>source\<close>, \<^verbatim>\<open>span\<close> and
  \<^verbatim>\<open>protocol\<close>, outside the file; the model takes each call's result as a
  function. A Go result \<^verbatim>\<open>(v, err)\<close> is a sum: \<open>Inl\<close> the error (by its message),
  \<open>Inr\<close> the value.
\<close>

type_synonym error = string
type_synonym URI = string
type_synonym Position = "nat \<times> nat"
type_synonym Range = "Position \<times> Position"

text \<open>A parsed file, by the one thing the source asks of it:
  \<^verbatim>\<open>astutil.PathEnclosingInterval(fAST, pos, pos)\<close>, the path of nodes enclosing a
  position, innermost first.\<close>

type_synonym FileAST = "nat \<Rightarrow> Node list"

record File =
  FileURI :: URI

record IdentifierInfo =
  IdentName :: string
  DeclarationURI :: URI
  DeclarationRange :: "error + Range"
  GetDeclObject :: Object

record Pkg =
  GetTypes :: "types_Package option"

record CheckPackageHandle =
  Check :: "error + Pkg"

record View =
  Folder :: URI
  GetFile :: "URI \<Rightarrow> error + File"
  Identifier :: "File \<Rightarrow> Position \<Rightarrow> error + IdentifierInfo"
  ParseGo :: "File \<Rightarrow> error + FileAST"
  CheckPackageHandles :: "File \<Rightarrow> error + CheckPackageHandle list"

text \<open>
  The server: of its session \<^verbatim>\<open>ViewOf\<close> and the option
  \<^verbatim>\<open>InstallGoDependency\<close>; the base server's \<^verbatim>\<open>DocumentSymbol\<close> (both values
  of its result); the conversions of package \<^verbatim>\<open>span\<close>
  (\<^verbatim>\<open>span.NewURI\<close>, \<^verbatim>\<open>URI.Filename\<close>, \<^verbatim>\<open>protocol.NewURI\<close>);
  \<^verbatim>\<open>source.NarrowestCheckPackageHandle\<close> (\<open>None\<close> for a nil handle); and the
  field \<^verbatim>\<open>FolderNeedsCleanup\<close>.
\<close>

datatype DocumentSymbol =
  DocumentSymbol (dsName: string) (dsKind: SymbolKind) (dsDeprecated: bool)
    (dsSelectionRange: Range) (dsChildren: "DocumentSymbol list")

record ElasticServer =
  ViewOf :: "URI \<Rightarrow> View"
  InstallGoDependency :: bool
  DocumentSymbols :: "string \<Rightarrow> DocumentSymbol list \<times> error option"
  NewURI :: "string \<Rightarrow> URI"
  Filename :: "URI \<Rightarrow> string"
  protocol_NewURI :: "URI \<Rightarrow> string"
  NarrowestCheckPackageHandle :: "CheckPackageHandle list \<Rightarrow> CheckPackageHandle option"
  FolderNeedsCleanup :: "string list"

text \<open>
  \<^verbatim>\<open>getQName\<close>. The slice \<^verbatim>\<open>astPath[1:]\<close> of an empty path is out of
  range.
\<close>

definition getQName :: "View \<Rightarrow> File \<Rightarrow> Object \<Rightarrow> SymbolKind \<Rightarrow> string outcome" where
  "getQName view f declObj kind =
     (let qname = ObjName declObj in
      if kind = protocol_Package then Returns qname
      else
        (case ParseGo view f of
           Inl err \<Rightarrow> Returns ''''
         | Inr fAST \<Rightarrow>
             (let astPath = fAST (ObjPos declObj) in
              case astPath of
                [] \<Rightarrow> Panics
              | _ # path1 \<Rightarrow>
                  (case qnameLoop path1 qname of
                     Panics \<Rightarrow> Panics
                   | Returns qname \<Rightarrow>
                       (case ObjPkg declObj of
                          None \<Rightarrow> Returns qname
                        | Some p \<Rightarrow> Returns (PkgName p @ ''.'' @ qname))))))"

section \<open>EDefinition\<close>

record Location =
  LocURI :: string
  LocRange :: Range

text \<open>\<^verbatim>\<open>protocol.SymbolLocator\<close>, with the fields the source assigns;
  \<^verbatim>\<open>Loc\<close> is a pointer (\<open>None\<close> for nil).\<close>

record SymbolLocator =
  Qname :: string
  Kind :: SymbolKind
  Loc :: "Location option"
  Package :: PackageLocator

record DefinitionParams =
  TextDocumentURI :: string
  ParamPosition :: Position

text \<open>
  The calls a handler makes to its collaborators and to the components of the file, in
  the order it makes them. The handlers return this log beside their result, so that
  "the handler does not classify" and "the handler does not invoke the type checker" are
  statements about a value.
\<close>

datatype Call =
    Call_ViewOf
  | Call_GetFile URI
  | Call_Identifier
  | Call_DeclarationRange
  | Call_getSymbolKind
  | Call_getQName
  | Call_collectPkgMetadata
  | Call_CheckPackageHandles
  | Call_Check
  | Call_DocumentSymbol

text \<open>
  \<^verbatim>\<open>EDefinition\<close>. The message of the error for kind 0 is the concatenation
  passed to \<^verbatim>\<open>fmt.Errorf\<close>: a Go identifier holds no \<^verbatim>\<open>%\<close>, so the format has
  no verb.
\<close>

definition EDefinition ::
  "Env \<Rightarrow> ElasticServer \<Rightarrow> DefinitionParams \<Rightarrow> Call list \<times> (error + SymbolLocator list) outcome" where
  "EDefinition e s params =
     (let uri = NewURI s (TextDocumentURI params);
          view = ViewOf s uri;
          log1 = [Call_ViewOf, Call_GetFile uri]
      in case GetFile view uri of
        Inl err \<Rightarrow> (log1, Returns (Inl err))
      | Inr f \<Rightarrow>
     (let log2 = log1 @ [Call_Identifier]
      in case Identifier view f (ParamPosition params) of
        Inl err \<Rightarrow> (log2, Returns (Inl err))
      | Inr ident \<Rightarrow>
     (let log3 = log2 @ [Call_DeclarationRange]
      in case DeclarationRange ident of
        Inl err \<Rightarrow> (log3, Returns (Inl err))
      | Inr declRange \<Rightarrow>
          if HasPrefix (Filename s (DeclarationURI ident)) (Filename s (Folder view)) then
            (log3, Returns (Inr [\<lparr>Qname = '''', Kind = 0,
               Loc = Some \<lparr>LocURI = protocol_NewURI s (DeclarationURI ident), LocRange = declRange\<rparr>,
               Package = emptyPackageLocator\<rparr>]))
          else
     (let declObj = GetDeclObject ident;
          declURI = DeclarationURI ident;
          log4 = log3 @ [Call_GetFile declURI]
      in case GetFile view declURI of
        Inl err \<Rightarrow> (log4, Returns (Inl err))
      | Inr declFile \<Rightarrow>
     (let kind = getSymbolKind declObj;
          log5 = log4 @ [Call_getSymbolKind]
      in if kind = 0 then
           (log5, Returns (Inl (''no corresponding symbol kind for '' @ [CHR 0x27] @ IdentName ident @ [CHR 0x27])))
         else
     (let log6 = log5 @ [Call_getQName]
      in case getQName view declFile declObj kind of
        Panics \<Rightarrow> (log6, Panics)
      | Returns qname \<Rightarrow>
     (let declPath = Filename s declURI;
          pkgLocator = collectPkgMetadata e (ObjPkg declObj) (Filename s (Folder view)) declPath
      in (log6 @ [Call_collectPkgMetadata],
          Returns (Inr [\<lparr>Qname = qname, Kind = kind, Loc = None, Package = pkgLocator\<rparr>])))))))))"

section \<open>Full\<close>

record SymbolInformation =
  SymName :: string
  SymKind :: SymbolKind
  Deprecated :: bool
  ContainerName :: string
  SymLocation :: Location

record DetailSymbolInformation =
  Symbol :: SymbolInformation
  DetailQname :: string
  DetailPackage :: PackageLocator

typedecl Reference

record FullResponse =
  Symbols :: "DetailSymbolInformation list"
  References :: "Reference list"

record FullParams =
  FullTextDocumentURI :: string
  FullReference :: bool

text \<open>
  The closure \<^verbatim>\<open>flattenDocumentSymbol\<close> of \<^verbatim>\<open>constructDetailSymbol\<close>. It
  appends to the captured \<^verbatim>\<open>detailSyms\<close>, which the model passes in and returns.
  \<open>flattenSymbol\<close> is the body of its loop, for one symbol.
\<close>

fun flattenDocumentSymbol ::
    "string \<Rightarrow> PackageLocator \<Rightarrow> DocumentSymbol list \<Rightarrow> string \<Rightarrow> string \<Rightarrow>
     DetailSymbolInformation list \<Rightarrow> DetailSymbolInformation list"
  and flattenSymbol ::
    "string \<Rightarrow> PackageLocator \<Rightarrow> DocumentSymbol \<Rightarrow> string \<Rightarrow> string \<Rightarrow>
     DetailSymbolInformation list \<Rightarrow> DetailSymbolInformation list" where
  "flattenDocumentSymbol uri pkgLocator [] prfx container detailSyms = detailSyms"
| "flattenDocumentSymbol uri pkgLocator (symbol # symbols) prfx container detailSyms =
     flattenDocumentSymbol uri pkgLocator symbols prfx container
       (flattenSymbol uri pkgLocator symbol prfx container detailSyms)"
| "flattenSymbol uri pkgLocator (DocumentSymbol name kind deprecated selectionRange children)
       prfx container detailSyms =
     (let sym = \<lparr>SymName = name, SymKind = kind, Deprecated = deprecated,
                 ContainerName = container,
                 SymLocation = \<lparr>LocURI = uri, LocRange = selectionRange\<rparr>\<rparr>;
          qnamePrefix = (if prfx \<noteq> '''' then prfx @ ''.'' @ name else name);
          detailSyms = detailSyms @
            [\<lparr>Symbol = sym, DetailQname = Name pkgLocator @ ''.'' @ qnamePrefix,
              DetailPackage = pkgLocator\<rparr>]
      in if length children > 0 then
           flattenDocumentSymbol uri pkgLocator children qnamePrefix name detailSyms
         else detailSyms)"

definition constructDetailSymbol ::
  "ElasticServer \<Rightarrow> string \<Rightarrow> PackageLocator \<Rightarrow> DetailSymbolInformation list \<times> error option" where
  "constructDetailSymbol s uri pkgLocator =
     (let (docSyms, err) = DocumentSymbols s uri
      in (flattenDocumentSymbol uri pkgLocator docSyms '''' '''' [], err))"

definition folderSkip :: string where
  "folderSkip = [Separator] @ ''vendor'' @ [Separator]"

text \<open>
  \<^verbatim>\<open>Full\<close> returns both a response and an error. Calling \<^verbatim>\<open>Check\<close> on a nil
  handle panics.
\<close>

definition Full ::
  "Env \<Rightarrow> ElasticServer \<Rightarrow> FullParams \<Rightarrow> Call list \<times> (FullResponse \<times> error option) outcome" where
  "Full e s fullParams =
     (let fullResponse = \<lparr>Symbols = [], References = []\<rparr>;
          uri = NewURI s (FullTextDocumentURI fullParams)
      in if Contains (Filename s uri) folderSkip then ([], Returns (fullResponse, None))
         else
     (let view = ViewOf s uri;
          log1 = [Call_ViewOf, Call_GetFile uri]
      in case GetFile view uri of
        Inl err \<Rightarrow> (log1, Returns (fullResponse, Some err))
      | Inr f \<Rightarrow>
     (let path = Filename s (FileURI f);
          log2 = log1 @ [Call_CheckPackageHandles]
      in case CheckPackageHandles view f of
        Inl err \<Rightarrow> (log2, Returns (fullResponse, Some err))
      | Inr cphs \<Rightarrow>
     (let log3 = log2 @ [Call_Check]
      in case NarrowestCheckPackageHandle s cphs of
        None \<Rightarrow> (log3, Panics)
      | Some cph \<Rightarrow>
     (case Check cph of
        Inl err \<Rightarrow> (log3, Returns (fullResponse, Some err))
      | Inr pkg \<Rightarrow>
     (let pkgLocator = collectPkgMetadata e (GetTypes pkg) (Filename s (Folder view)) path;
          log4 = log3 @ [Call_collectPkgMetadata, Call_DocumentSymbol];
          (detailSyms, err) = constructDetailSymbol s (FullTextDocumentURI fullParams) pkgLocator
      in case err of
        Some er \<Rightarrow> (log4, Returns (fullResponse, Some er))
      | None \<Rightarrow> (log4, Returns (fullResponse\<lparr>Symbols := detailSyms\<rparr>, None))))))))"

section \<open>Paths and the file system\<close>

text \<open>
  \<^verbatim>\<open>filepath.Base\<close>, \<^verbatim>\<open>filepath.Dir\<close> and \<^verbatim>\<open>filepath.Ext\<close>.
  \<open>stripSlashes\<close> is the loop of \<^verbatim>\<open>Base\<close> that drops trailing separators.
\<close>

definition stripSlashes :: "string \<Rightarrow> string" where
  "stripSlashes path = rev (dropWhile (\<lambda>b. b = Separator) (rev path))"

definition Base :: "string \<Rightarrow> string" where
  "Base path =
     (if path = [] then ''.''
      else
        (let path = stripSlashes path;
             i = LastIndex path Separator;
             path = (if i \<ge> 0 then drop (nat (i + 1)) path else path)
         in if path = [] then [Separator] else path))"

definition Dir :: "string \<Rightarrow> string" where
  "Dir path = Clean (take (nat (LastIndex path Separator + 1)) path)"

text \<open>The loop of \<^verbatim>\<open>Ext\<close> runs from the end of the path down to the last
  separator and returns the text from the last dot it meets.\<close>

definition Ext :: "string \<Rightarrow> string" where
  "Ext path =
     (let elem = drop (nat (LastIndex path Separator + 1)) path;
          i = LastIndex elem CHR ''.''
      in if i \<ge> 0 then drop (nat i) elem else [])"

text \<open>
  The file system is state: the paths that exist, each a directory or a regular file
  with its content. The keys are cleaned absolute paths, and a path is looked up
  cleaned. \<^verbatim>\<open>os.Stat(p)\<close> returns no error exactly for a path that exists.
\<close>

datatype Entry = Directory | RegularFile string

type_synonym FS = "(string \<times> Entry) list"

definition lookupFS :: "FS \<Rightarrow> string \<Rightarrow> Entry option" where
  "lookupFS fs path = map_of fs (Clean path)"

definition Stat :: "FS \<Rightarrow> string \<Rightarrow> bool" where
  "Stat fs path = (lookupFS fs path \<noteq> None)"

text \<open>
  \<^verbatim>\<open>ioutil.ReadDir\<close> returns the entries of a directory sorted by name (strings
  compare byte by byte), each with its name and its file info (here whether it is a
  directory); it fails for a path that is no directory.
\<close>

fun stringLess :: "string \<Rightarrow> string \<Rightarrow> bool" where
  "stringLess [] [] = False"
| "stringLess [] (b # bs) = True"
| "stringLess (a # as) [] = False"
| "stringLess (a # as) (b # bs) =
     ((of_char a :: nat) < of_char b \<or> (a = b \<and> stringLess as bs))"

fun insertByName :: "string \<times> Entry \<Rightarrow> (string \<times> Entry) list \<Rightarrow> (string \<times> Entry) list" where
  "insertByName x [] = [x]"
| "insertByName x (y # ys) =
     (if stringLess (fst y) (fst x) then y # insertByName x ys else x # y # ys)"

definition sortByName :: "(string \<times> Entry) list \<Rightarrow> (string \<times> Entry) list" where
  "sortByName xs = foldr insertByName xs []"

text \<open>The name of \<open>p\<close> in the directory \<open>dir\<close> (a cleaned path), if \<open>p\<close> is an entry
  of that directory.\<close>

definition childName :: "string \<Rightarrow> string \<Rightarrow> string option" where
  "childName dir p =
     (let pre = (if dir = [Separator] then dir else dir @ [Separator]);
          name = drop (length pre) p
      in if HasPrefix p pre \<and> name \<noteq> [] \<and> Separator \<notin> set name then Some name else None)"

definition ReadDir :: "FS \<Rightarrow> string \<Rightarrow> error + (string \<times> Entry) list" where
  "ReadDir fs path =
     (case lookupFS fs path of
        Some Directory \<Rightarrow>
          Inr (sortByName
                 (concat (map (\<lambda>(p, info). case childName (Clean path) p of
                                               None \<Rightarrow> []
                                             | Some name \<Rightarrow> [(name, info)]) fs)))
      | _ \<Rightarrow> Inl ''not a directory'')"

text \<open>\<^verbatim>\<open>ioutil.ReadFile\<close> returns the data of a regular file and fails for any
  other path; \<^verbatim>\<open>Mode().IsRegular()\<close> of a file info.\<close>

definition ReadFile :: "FS \<Rightarrow> string \<Rightarrow> error + string" where
  "ReadFile fs path =
     (case lookupFS fs path of
        Some (RegularFile data) \<Rightarrow> Inr data
      | Some Directory \<Rightarrow> Inl ''is a directory''
      | None \<Rightarrow> Inl ''no such file or directory'')"

definition IsRegular :: "Entry \<Rightarrow> bool" where
  "IsRegular info = (case info of RegularFile data \<Rightarrow> True | Directory \<Rightarrow> False)"

text \<open>
  \<^verbatim>\<open>os.Remove\<close> deletes a file or an empty directory and fails otherwise.
  \<^verbatim>\<open>os.Create\<close> followed by \<^verbatim>\<open>WriteString\<close> makes a regular file with the
  data; it fails when the parent is no directory or the path is a directory.
\<close>

definition Remove :: "FS \<Rightarrow> string \<Rightarrow> FS \<times> error option" where
  "Remove fs path =
     (case lookupFS fs path of
        None \<Rightarrow> (fs, Some ''no such file or directory'')
      | Some (RegularFile d) \<Rightarrow> (filter (\<lambda>(p, info). p \<noteq> Clean path) fs, None)
      | Some Directory \<Rightarrow>
          (if list_ex (\<lambda>(p, info). childName (Clean path) p \<noteq> None) fs
           then (fs, Some ''directory not empty'')
           else (filter (\<lambda>(p, info). p \<noteq> Clean path) fs, None)))"

definition CreateWithData :: "FS \<Rightarrow> string \<Rightarrow> string \<Rightarrow> FS \<times> error option" where
  "CreateWithData fs path d =
     (if lookupFS fs (Dir path) \<noteq> Some Directory then (fs, Some ''no such file or directory'')
      else if lookupFS fs path = Some Directory then (fs, Some ''is a directory'')
      else (filter (\<lambda>(p, info). p \<noteq> Clean path) fs @ [(Clean path, RegularFile d)], None))"

section \<open>The vendor-mode registry\<close>

definition DependencyControlSystem :: "string list" where
  "DependencyControlSystem =
     [''GLOCKFILE'', ''Godeps/Godeps.json'', ''Gopkg.lock'', ''dependencies.tsv'',
      ''glide.lock'', ''vendor.conf'', ''vendor.yml'', ''vendor/manifest'',
      ''vendor/vendor.json'']"

text \<open>
  \<^verbatim>\<open>vendorModeHelper\<close> returns three closures over the slice
  \<^verbatim>\<open>folderUnderVendorMode\<close>. Each is a function of the slice that returns the
  new slice (and its result, if it has one).
\<close>

definition storeVendorFolder :: "string \<Rightarrow> string list \<Rightarrow> string list" where
  "storeVendorFolder folder folderUnderVendorMode = folderUnderVendorMode @ [folder]"

text \<open>The first loop of \<^verbatim>\<open>checkVendorFolder\<close>: the index of the first entry equal
  to the folder, counting from \<open>index\<close>; \<open>None\<close> when the loop ends without a return.\<close>

fun findFolder :: "string \<Rightarrow> string list \<Rightarrow> int \<Rightarrow> int option" where
  "findFolder folder [] index = None"
| "findFolder folder (dir # dirs) index =
     (if folder = dir then Some index else findFolder folder dirs (index + 1))"

definition checkVendorFolder ::
  "FS \<Rightarrow> string \<Rightarrow> string list \<Rightarrow> int \<times> string list" where
  "checkVendorFolder fs folder folderUnderVendorMode =
     (case findFolder folder folderUnderVendorMode 0 of
        Some index \<Rightarrow> (index, folderUnderVendorMode)
      | None \<Rightarrow>
          if Stat fs (Join [folder, ''go.mod'']) then (-1, folderUnderVendorMode)
          else if list_ex (\<lambda>name. Stat fs (Join [folder, name])) DependencyControlSystem
          then (-1, folderUnderVendorMode)
          else if Stat fs (Join [folder, ''vendor'']) then
            (let folderUnderVendorMode = folderUnderVendorMode @ [folder]
             in (int (length folderUnderVendorMode) - 1, folderUnderVendorMode))
          else (-1, folderUnderVendorMode))"

definition clearVendorFolder :: "int \<Rightarrow> string list \<Rightarrow> string list" where
  "clearVendorFolder index folderUnderVendorMode =
     (let length = int (length folderUnderVendorMode)
      in if index < 0 \<or> index \<ge> length then folderUnderVendorMode
         else take (nat (length - 1))
                (folderUnderVendorMode[nat index := folderUnderVendorMode ! nat (length - 1)]))"

section \<open>The workspace module manager\<close>

record WorkspaceFolder =
  FolderURI :: string
  FolderName :: string

text \<open>\<^verbatim>\<open>DepsManager\<close>; its field \<^verbatim>\<open>FolderNeedsCleanup\<close> is written
  \<open>depsFolderNeedsCleanup\<close>, apart from the field of the same name of the server.\<close>

record DepsManager =
  installGoDeps :: bool
  moduleFolders :: "WorkspaceFolder list"
  depsFolderNeedsCleanup :: "string list"

text \<open>
  What the module manager takes from outside. \<open>importComment\<close> is
  \<^verbatim>\<open>importCommentRE.FindSubmatch\<close> followed by \<^verbatim>\<open>strconv.Unquote\<close> on the
  data of a file: the import path of the import comment of its package clause, empty
  when the expression does not match or the match does not unquote. \<open>jsonField\<close> is
  \<^verbatim>\<open>json.Unmarshal\<close> into a struct of one string field, read afterwards: the
  field of that name, empty when the data is no JSON object or has no such field. The
  commands \<^verbatim>\<open>go mod init\<close> and \<^verbatim>\<open>go mod download\<close> are taken by their
  effect on the file system and their error.
\<close>

record Toolchain =
  importComment :: "string \<Rightarrow> string"
  jsonField :: "string \<Rightarrow> string \<Rightarrow> string"
  goModInitCmd :: "FS \<Rightarrow> string \<Rightarrow> string \<Rightarrow> FS \<times> error option"
  goModDownloadCmd :: "FS \<Rightarrow> string \<Rightarrow> FS \<times> error option"

text \<open>The closure \<^verbatim>\<open>findImportComment\<close> of \<^verbatim>\<open>getModulePath\<close>.\<close>

definition findImportComment :: "Toolchain \<Rightarrow> FS \<Rightarrow> string \<Rightarrow> string" where
  "findImportComment t fs path =
     (case ReadFile fs path of
        Inl err \<Rightarrow> []
      | Inr data \<Rightarrow> importComment t data)"

text \<open>
  The loop of \<^verbatim>\<open>findModulePath\<close> over the entries of one directory: the first
  import comment found in a regular file whose name ends in \<^verbatim>\<open>.go\<close>. The
  elements \<open>dir\<close> are the ones joined before the name of the entry.
\<close>

fun importCommentLoop ::
    "Toolchain \<Rightarrow> FS \<Rightarrow> string list \<Rightarrow> (string \<times> Entry) list \<Rightarrow> string option" where
  "importCommentLoop t fs dir [] = None"
| "importCommentLoop t fs dir ((name, info) # list) =
     (if IsRegular info \<and> HasSuffix name ''.go'' then
        (let com = findImportComment t fs (Join (dir @ [name])) in
         if com \<noteq> [] then Some com else importCommentLoop t fs dir list)
      else importCommentLoop t fs dir list)"

text \<open>The entries of a directory, none when \<^verbatim>\<open>ioutil.ReadDir\<close> fails (its
  error is dropped).\<close>

definition entriesOf :: "FS \<Rightarrow> string \<Rightarrow> (string \<times> Entry) list" where
  "entriesOf fs path = (case ReadDir fs path of Inl err \<Rightarrow> [] | Inr list \<Rightarrow> list)"

text \<open>The second loop of \<^verbatim>\<open>findModulePath\<close>, over the directories of the
  folder.\<close>

fun subdirCommentLoop ::
    "Toolchain \<Rightarrow> FS \<Rightarrow> string \<Rightarrow> (string \<times> Entry) list \<Rightarrow> string option" where
  "subdirCommentLoop t fs folder [] = None"
| "subdirCommentLoop t fs folder ((name, info1) # list) =
     (if info1 = Directory then
        (case importCommentLoop t fs [folder, name] (entriesOf fs (Join [folder, name])) of
           Some com \<Rightarrow> Some com
         | None \<Rightarrow> subdirCommentLoop t fs folder list)
      else subdirCommentLoop t fs folder list)"

text \<open>The data that \<^verbatim>\<open>ioutil.ReadFile\<close> returns, empty when it fails (its error
  is dropped).\<close>

definition dataOf :: "FS \<Rightarrow> string \<Rightarrow> string" where
  "dataOf fs path = (case ReadFile fs path of Inl err \<Rightarrow> [] | Inr data \<Rightarrow> data)"

definition findModulePath :: "Toolchain \<Rightarrow> FS \<Rightarrow> string \<Rightarrow> error + string" where
  "findModulePath t fs folder =
     (let list = entriesOf fs folder in
      case importCommentLoop t fs [folder] list of
        Some com \<Rightarrow> Inr com
      | None \<Rightarrow>
          (case subdirCommentLoop t fs folder list of
             Some com \<Rightarrow> Inr (Dir com)
           | None \<Rightarrow>
               (let importPath = jsonField t (dataOf fs (Join [folder, ''Godeps/Godeps.json'']))
                                   ''ImportPath''
                in if importPath \<noteq> [] then Inr importPath
                   else
                     (let rootPath = jsonField t (dataOf fs (Join [folder, ''vendor/vendor.json'']))
                                       ''RootPath''
                      in if rootPath \<noteq> [] then Inr rootPath
                         else Inl (''cannot determine module path for source directory ''
                                   @ folder
                                   @ '' (outside GOPATH, module path must be specified)'')))))"

definition getModulePath :: "Toolchain \<Rightarrow> FS \<Rightarrow> string \<Rightarrow> string" where
  "getModulePath t fs folder =
     (case findModulePath t fs folder of
        Inr modulePath \<Rightarrow> modulePath
      | Inl err \<Rightarrow>
          (let list = SplitOn folder ([Separator] @ ''__'') in
           if length list \<noteq> 2 then folder
           else
             (let prefixList = Split (list ! 0) Separator;
                  suffixList = Split (list ! 1) Separator
              in if length prefixList < 4 then folder
                 else
                   (let modulePath = strings_Join (drop (length prefixList - 3) prefixList) ''/''
                    in if length suffixList < 3 then modulePath
                       else strings_Join ([modulePath] @ drop 2 suffixList) ''/''))))"

definition constructGoModManually :: "FS \<Rightarrow> string \<Rightarrow> string \<Rightarrow> FS \<times> error option" where
  "constructGoModManually fs folder modulePath =
     (if Stat fs (Join [folder, ''go.mod'']) then (fs, None)
      else CreateWithData fs (Join [folder, ''go.mod'']) (''module '' @ modulePath))"

definition goModInit ::
  "Toolchain \<Rightarrow> DepsManager \<Rightarrow> FS \<Rightarrow> string \<Rightarrow> DepsManager \<times> FS \<times> error option" where
  "goModInit t depsMgr fs folder =
     (let modulePath = getModulePath t fs folder in
      if installGoDeps depsMgr then
        (let (fs, err) = goModInitCmd t fs folder modulePath in (depsMgr, fs, err))
      else
        (let depsMgr = depsMgr\<lparr>depsFolderNeedsCleanup := depsFolderNeedsCleanup depsMgr @ [folder]\<rparr>;
             (fs, err) = constructGoModManually fs folder modulePath
         in (depsMgr, fs, err)))"

text \<open>\<^verbatim>\<open>existDepControlFile\<close>, the closure of \<^verbatim>\<open>collectUncoveredSrc\<close>.\<close>

definition existDepControlFile :: "FS \<Rightarrow> string \<Rightarrow> bool" where
  "existDepControlFile fs dir = list_ex (\<lambda>name. Stat fs (Join [dir, name])) DependencyControlSystem"

text \<open>
  \<^verbatim>\<open>collectUncoveredSrc\<close> calls itself on the directories of the folder. The first
  argument bounds the depth of these calls; \<open>None\<close> is returned when it is used up.
  The loop over the entries of the folder is a fold whose state holds the variables
  \<^verbatim>\<open>shouldBeCovered\<close>, \<^verbatim>\<open>folderUncovered\<close>,
  \<^verbatim>\<open>folderNeedMod\<close> and \<^verbatim>\<open>err\<close>.
\<close>

fun collectUncoveredSrc ::
    "nat \<Rightarrow> FS \<Rightarrow> string \<Rightarrow> (string list list \<times> string list \<times> error option) option" where
  "collectUncoveredSrc 0 fs path = None"
| "collectUncoveredSrc (Suc depth) fs path =
     (if Stat fs (Join [path, ''go.mod'']) then Some ([], [], None)
      else if existDepControlFile fs path then Some ([], [path], None)
      else if Stat fs (Join [path, ''vendor'']) then Some ([], [path], None)
      else
        (case ReadDir fs path of
           Inl err \<Rightarrow> Some ([], [], Some err)
         | Inr fileInfo \<Rightarrow>
             (case foldl
                (\<lambda>state (name, info).
                   case state of
                     None \<Rightarrow> None
                   | Some (shouldBeCovered, folderUncovered, folderNeedMod, err) \<Rightarrow>
                       (let shouldBeCovered =
                              (if \<not> shouldBeCovered \<and> Ext name = ''.go''
                                  \<and> \<not> HasSuffix name ''_test.go''
                               then True else shouldBeCovered)
                        in if info = Directory \<and> name ! 0 \<noteq> CHR ''.'' then
                             (case collectUncoveredSrc depth fs (Join [path, name]) of
                                None \<Rightarrow> None
                              | Some (uncovered, mods, e) \<Rightarrow>
                                  Some (shouldBeCovered, folderUncovered @ uncovered,
                                        folderNeedMod @ mods, e))
                           else Some (shouldBeCovered, folderUncovered, folderNeedMod, err)))
                (Some (False, [], [], None)) fileInfo of
                None \<Rightarrow> None
              | Some (shouldBeCovered, folderUncovered, folderNeedMod, err) \<Rightarrow>
                  Some ((if shouldBeCovered
                         then folderUncovered @ [Split path Separator]
                         else folderUncovered),
                        folderNeedMod, err))))"

text \<open>
  The function passed to \<^verbatim>\<open>filepath.Walk\<close> by \<^verbatim>\<open>collectMetadata\<close>, for a
  path whose \<^verbatim>\<open>Lstat\<close> succeeded: whether it returns \<^verbatim>\<open>SkipDir\<close>, and the
  new value of \<^verbatim>\<open>module\<close>. The name of the file info is the base of the path.
\<close>

definition walkFn :: "string \<Rightarrow> Entry \<Rightarrow> string list \<Rightarrow> bool \<times> string list" where
  "walkFn path info module =
     (let base = Base path in
      if (base ! 0 = CHR ''.'' \<or> base = ''vendor'') \<and> info = Directory then (True, module)
      else if Base path = ''go.mod'' then (False, module @ [Dir path])
      else (False, module))"

text \<open>
  \<^verbatim>\<open>filepath.walk\<close> with that function: a file is visited; a directory is
  visited and, unless skipped, its entries are walked in the order of their names. The
  first argument bounds the depth.
\<close>

fun walk :: "nat \<Rightarrow> FS \<Rightarrow> string \<Rightarrow> Entry \<Rightarrow> string list \<Rightarrow> string list option" where
  "walk 0 fs path info module = None"
| "walk (Suc depth) fs path info module =
     (case walkFn path info module of
        (skip, module) \<Rightarrow>
          if info \<noteq> Directory \<or> skip then Some module
          else
            (case ReadDir fs path of
               Inl err \<Rightarrow> Some module
             | Inr names \<Rightarrow>
                 foldl
                   (\<lambda>state (name, fileInfo).
                      case state of
                        None \<Rightarrow> None
                      | Some module \<Rightarrow> walk depth fs (Join [path, name]) fileInfo module)
                   (Some module) names))"

text \<open>
  \<^verbatim>\<open>filepath.Walk\<close> from a root. When \<^verbatim>\<open>Lstat\<close> of the root fails the
  function is called with a nil file info, and calls \<^verbatim>\<open>IsDir\<close> on it when the
  base of the root starts with a dot or is \<^verbatim>\<open>vendor\<close>.
\<close>

definition Walk :: "FS \<Rightarrow> string \<Rightarrow> string list outcome option" where
  "Walk fs root =
     (case lookupFS fs root of
        None \<Rightarrow>
          (if Base root ! 0 = CHR ''.'' \<or> Base root = ''vendor'' then Some Panics
           else Some (Returns []))
      | Some info \<Rightarrow> map_option Returns (walk (Suc (length fs)) fs root info []))"

text \<open>The loop of \<^verbatim>\<open>collectMetadata\<close> labelled \<^verbatim>\<open>DONE\<close>: the longest common
  prefix, by elements, of the first uncovered folder (whose elements from index \<open>i\<close> on
  are the first argument) and the others.\<close>

fun longestPrefixLoop :: "string list \<Rightarrow> nat \<Rightarrow> string list list \<Rightarrow> string \<Rightarrow> string" where
  "longestPrefixLoop [] i others longestPrefix = longestPrefix"
| "longestPrefixLoop (name # names) i others longestPrefix =
     (if list_ex (\<lambda>folder. length folder \<le> i \<or> folder ! i \<noteq> name) others then longestPrefix
      else longestPrefixLoop names (i + 1) others (Join [longestPrefix, name]))"

text \<open>The last loop of \<^verbatim>\<open>collectMetadata\<close>: a module file for every folder that
  needs one; a folder whose initialization fails is logged and left out.\<close>

fun initModules ::
    "Toolchain \<Rightarrow> string list \<Rightarrow> DepsManager \<Rightarrow> FS \<Rightarrow> string list \<Rightarrow> DepsManager \<times> FS \<times> string list" where
  "initModules t [] depsMgr fs module = (depsMgr, fs, module)"
| "initModules t (folder # folders) depsMgr fs module =
     (case goModInit t depsMgr fs folder of
        (depsMgr, fs, Some err) \<Rightarrow> initModules t folders depsMgr fs module
      | (depsMgr, fs, None) \<Rightarrow> initModules t folders depsMgr fs (module @ [folder]))"

text \<open>\<^verbatim>\<open>collectMetadata\<close> returns an error and the modules; the model returns
  the manager and the file system as well. \<open>None\<close> stands for a used-up depth bound.\<close>

definition collectMetadata ::
  "Toolchain \<Rightarrow> DepsManager \<Rightarrow> FS \<Rightarrow> string \<Rightarrow>
   (DepsManager \<times> FS \<times> error option \<times> string list) outcome option" where
  "collectMetadata t depsMgr fs folder =
     (case Walk fs folder of
        None \<Rightarrow> None
      | Some Panics \<Rightarrow> Some Panics
      | Some (Returns module) \<Rightarrow>
          (case collectUncoveredSrc (Suc (length fs)) fs folder of
             None \<Rightarrow> None
           | Some (folderUncovered, folderNeedMod, Some err) \<Rightarrow>
               Some (Returns (depsMgr, fs, None, module))
           | Some (folderUncovered, folderNeedMod, None) \<Rightarrow>
               (let folderNeedMod =
                      (if length folderUncovered > 0 then
                         folderNeedMod @
                           [Clean (longestPrefixLoop (folderUncovered ! 0) 0 (tl folderUncovered)
                                     [Separator])]
                       else folderNeedMod);
                    (depsMgr, fs, module) = initModules t folderNeedMod depsMgr fs module
                in Some (Returns (depsMgr, fs, None, module)))))"

text \<open>\<^verbatim>\<open>DepsManager.run\<close>; \<open>addModuleFolders\<close> is its loop over the modules.\<close>

fun addModuleFolders :: "ElasticServer \<Rightarrow> string \<Rightarrow> string list \<Rightarrow> DepsManager \<Rightarrow> DepsManager" where
  "addModuleFolders s rootURI [] depsMgr = depsMgr"
| "addModuleFolders s rootURI (folder # modules) depsMgr =
     (let uri = NewURI s folder in
      if Clean uri = Clean rootURI then addModuleFolders s rootURI modules depsMgr
      else addModuleFolders s rootURI modules
             (depsMgr\<lparr>moduleFolders := moduleFolders depsMgr
                        @ [\<lparr>FolderURI = uri, FolderName = Base folder\<rparr>]\<rparr>))"

definition run ::
  "Toolchain \<Rightarrow> ElasticServer \<Rightarrow> DepsManager \<Rightarrow> FS \<Rightarrow> WorkspaceFolder \<Rightarrow>
   (DepsManager \<times> FS \<times> error option) outcome option" where
  "run t s depsMgr fs root =
     (case collectMetadata t depsMgr fs (Filename s (NewURI s (FolderURI root))) of
        None \<Rightarrow> None
      | Some Panics \<Rightarrow> Some Panics
      | Some (Returns (depsMgr, fs, Some err, modules)) \<Rightarrow> Some (Returns (depsMgr, fs, Some err))
      | Some (Returns (depsMgr, fs, None, modules)) \<Rightarrow>
          Some (Returns (addModuleFolders s (FolderURI root) modules depsMgr, fs, None)))"

text \<open>
  \<^verbatim>\<open>downloadDeps\<close>, over the file system and the vendor-mode registry;
  \<open>downloadLoop\<close> is its loop.
\<close>

fun downloadLoop ::
    "Toolchain \<Rightarrow> ElasticServer \<Rightarrow> WorkspaceFolder list \<Rightarrow> FS \<Rightarrow> string list \<Rightarrow> FS \<times> string list" where
  "downloadLoop t s [] fs registry = (fs, registry)"
| "downloadLoop t s (folder # folders) fs registry =
     (let dir = Filename s (NewURI s (FolderURI folder)) in
      case checkVendorFolder fs dir registry of
        (index, registry) \<Rightarrow>
          if index \<ge> 0 then downloadLoop t s folders fs registry
          else
            (case goModDownloadCmd t fs dir of
               (fs, Some err) \<Rightarrow> downloadLoop t s folders fs (storeVendorFolder dir registry)
             | (fs, None) \<Rightarrow> downloadLoop t s folders fs registry))"

definition downloadDeps ::
  "Toolchain \<Rightarrow> ElasticServer \<Rightarrow> DepsManager \<Rightarrow> WorkspaceFolder list \<Rightarrow> FS \<Rightarrow> string list \<Rightarrow>
   FS \<times> string list" where
  "downloadDeps t s depsMgr folders fs registry =
     (if \<not> installGoDeps depsMgr then (fs, registry)
      else downloadLoop t s folders fs registry)"

text \<open>
  \<^verbatim>\<open>ManageDeps\<close>. Its loop ranges over the folders it was given (the slice is read
  once, before the loop) and appends to \<^verbatim>\<open>*folders\<close>; \<open>manageLoop\<close> is that
  loop, with the manager, the file system and the folders as its state. The option
  \<^verbatim>\<open>installGoDependency\<close> of the request is \<open>Some\<close> of its value when the options
  are a map that holds a boolean there. The model returns the server, whose fields the
  function can assign, the folders, the file system and the registry.
\<close>

fun manageLoop ::
    "Toolchain \<Rightarrow> ElasticServer \<Rightarrow> WorkspaceFolder list \<Rightarrow> DepsManager \<Rightarrow> FS \<Rightarrow>
     WorkspaceFolder list \<Rightarrow> (DepsManager \<times> FS \<times> WorkspaceFolder list) outcome option" where
  "manageLoop t s [] depsMgr fs folders = Some (Returns (depsMgr, fs, folders))"
| "manageLoop t s (folder # rest) depsMgr fs folders =
     (case run t s depsMgr fs folder of
        None \<Rightarrow> None
      | Some Panics \<Rightarrow> Some Panics
      | Some (Returns (depsMgr, fs, err)) \<Rightarrow>
          manageLoop t s rest depsMgr fs (folders @ moduleFolders depsMgr))"

definition ManageDeps ::
  "Toolchain \<Rightarrow> ElasticServer \<Rightarrow> WorkspaceFolder list \<Rightarrow> bool option \<Rightarrow> FS \<Rightarrow> string list \<Rightarrow>
   (ElasticServer \<times> WorkspaceFolder list \<times> FS \<times> string list) outcome option" where
  "ManageDeps t s folders options fs registry =
     (let installGoDeps = InstallGoDependency s;
          installGoDeps = (if \<not> installGoDeps \<and> options = Some True then True else installGoDeps);
          depsMgr = \<lparr>installGoDeps = installGoDeps, moduleFolders = [], depsFolderNeedsCleanup = []\<rparr>
      in case manageLoop t s folders depsMgr fs folders of
           None \<Rightarrow> None
         | Some Panics \<Rightarrow> Some Panics
         | Some (Returns (depsMgr, fs, folders)) \<Rightarrow>
             (case downloadDeps t s depsMgr folders fs registry of
                (fs, registry) \<Rightarrow> Some (Returns (s, folders, fs, registry))))"

text \<open>\<^verbatim>\<open>Cleanup\<close>: the loop over \<^verbatim>\<open>s.FolderNeedsCleanup\<close>; the errors of
  \<^verbatim>\<open>os.Remove\<close> are dropped.\<close>

fun cleanupLoop :: "string list \<Rightarrow> FS \<Rightarrow> FS" where
  "cleanupLoop [] fs = fs"
| "cleanupLoop (folder # folders) fs =
     (let goMod = Join [folder, ''go.mod''];
          goSum = Join [folder, ''go.sum''];
          fs = (if Stat fs goMod then fst (Remove fs goMod) else fs);
          fs = (if Stat fs goSum then fst (Remove fs goSum) else fs)
      in cleanupLoop folders fs)"

definition Cleanup :: "ElasticServer \<Rightarrow> FS \<Rightarrow> FS" where
  "Cleanup s fs = cleanupLoop (FolderNeedsCleanup s) fs"

section \<open>The claims' own words\<close>

text \<open>
  Definitions that follow the words of the specification, to be compared with the
  functions above. \<open>afterFinal c s\<close> is the part of \<open>s\<close> after the final \<open>c\<close> (all of
  \<open>s\<close> when it holds none).
\<close>

definition afterFinal :: "char \<Rightarrow> string \<Rightarrow> string" where
  "afterFinal c s = rev (takeWhile (\<lambda>b. b \<noteq> c) (rev s))"

text \<open>The segments of a path that follow an \<^verbatim>\<open>@\<close>: for each \<^verbatim>\<open>@\<close>, the text
  after it up to the next path separator.\<close>

fun segmentsAfterAt :: "string \<Rightarrow> string list" where
  "segmentsAfterAt [] = []"
| "segmentsAfterAt (b # s) =
     (if b = CHR ''@'' then takeWhile (\<lambda>x. x \<noteq> Separator) s # segmentsAfterAt s
      else segmentsAfterAt s)"


text \<open>A declaration site reduced to its first declared name.\<close>

fun firstNameOnly :: "Node \<Rightarrow> Node" where
  "firstNameOnly (ast_Field names) = ast_Field (take 1 names)"
| "firstNameOnly (ast_ValueSpec names) = ast_ValueSpec (take 1 names)"
| "firstNameOnly n = n"

text \<open>
  The pre-order traversal of an outline. An entry is a symbol with the dotted path of
  names that leads to it and the name of its parent; \<open>parentPath\<close> is the parent's
  path, empty at top level.
\<close>

fun outlineEntries :: "string \<Rightarrow> string \<Rightarrow> DocumentSymbol \<Rightarrow> (string \<times> string \<times> DocumentSymbol) list" where
  "outlineEntries parentPath parent (DocumentSymbol name kind deprecated selectionRange children) =
     (let path = (if parentPath = [] then name else parentPath @ ''.'' @ name)
      in (path, parent, DocumentSymbol name kind deprecated selectionRange children)
         # concat (map (outlineEntries path name) children))"

text \<open>The entry of the flat list for a symbol at a path, in a document and a package.\<close>

definition detailOf ::
  "string \<Rightarrow> PackageLocator \<Rightarrow> string \<times> string \<times> DocumentSymbol \<Rightarrow> DetailSymbolInformation" where
  "detailOf uri pkgLocator entry =
     (case entry of (path, parent, symbol) \<Rightarrow>
        \<lparr>Symbol = \<lparr>SymName = dsName symbol, SymKind = dsKind symbol,
                   Deprecated = dsDeprecated symbol, ContainerName = parent,
                   SymLocation = \<lparr>LocURI = uri, LocRange = dsSelectionRange symbol\<rparr>\<rparr>,
         DetailQname = Name pkgLocator @ ''.'' @ path,
         DetailPackage = pkgLocator\<rparr>)"

text \<open>
  A file is inside a workspace root when the elements of the root's path are the first
  elements of the file's path (empty elements, which a doubled or trailing separator
  gives, do not count).
\<close>

definition pathElements :: "string \<Rightarrow> string list" where
  "pathElements path = filter (\<lambda>elem. elem \<noteq> []) (Split path Separator)"

definition insideRoot :: "string \<Rightarrow> string \<Rightarrow> bool" where
  "insideRoot root path = prefix (pathElements root) (pathElements path)"

section \<open>Example inputs\<close>

text \<open>
  Concrete inputs, for the closed instances of the theorems below. \<open>exEnv\<close> takes two
  version strings as the valid ones. The view \<open>exView\<close> has the workspace folder
  \<^verbatim>\<open>/w/proj\<close>; it resolves a position on line 0 to a constant declared in the
  workspace, one on line 1 to the field \<^verbatim>\<open>x\<close> of
  \<^verbatim>\<open>type T struct { a, b struct { x int } }\<close> in the module cache, one on line 2
  to a named pointer type \<^verbatim>\<open>P\<close> there, and any other to a function declared in
  the directory \<^verbatim>\<open>/w/project2\<close>. \<open>exPath\<close> is the path of nodes enclosing
  \<^verbatim>\<open>x\<close>: identifier, field, field list, struct type, field \<^verbatim>\<open>a, b\<close>, field
  list, struct type, type spec \<^verbatim>\<open>T\<close>, declaration, file.
\<close>

definition exEnv :: Env where
  "exEnv = \<lparr>GOPATH = ''/go'', GOROOT = ''/usr/local/go'',
            IsValid = (\<lambda>v. v = ''v1.2.3'' \<or> v = ''v2.0.0''),
            RepoRootForImportPath = (\<lambda>p. Inl ''unreachable'')\<rparr>"

definition exPkg :: types_Package where
  "exPkg = \<lparr>PkgName = ''dep'', PkgPath = ''example.com/dep''\<rparr>"

definition exPath :: "Node list" where
  "exPath = [ast_OtherNode, ast_Field [''x''], ast_OtherNode, ast_StructType,
             ast_Field [''a'', ''b''], ast_OtherNode, ast_StructType, ast_TypeSpec ''T'',
             ast_OtherNode, ast_OtherNode]"

definition exIdent :: "Position \<Rightarrow> IdentifierInfo" where
  "exIdent pos =
     (if fst pos = 0 then
        \<lparr>IdentName = ''local'', DeclarationURI = ''file:///w/proj/a.go'',
         DeclarationRange = Inr ((7, 5), (7, 10)),
         GetDeclObject = \<lparr>ObjShape = types_Const, ObjName = ''local'', ObjPkg = None, ObjPos = 7\<rparr>\<rparr>
      else if fst pos = 1 then
        \<lparr>IdentName = ''x'', DeclarationURI = ''file:///go/pkg/mod/example.com/dep@v1.2.3/t.go'',
         DeclarationRange = Inr ((3, 4), (3, 5)),
         GetDeclObject = \<lparr>ObjShape = types_Var True, ObjName = ''x'', ObjPkg = Some exPkg, ObjPos = 42\<rparr>\<rparr>
      else if fst pos = 2 then
        \<lparr>IdentName = ''P'', DeclarationURI = ''file:///go/pkg/mod/example.com/dep@v1.2.3/t.go'',
         DeclarationRange = Inr ((9, 5), (9, 6)),
         GetDeclObject = \<lparr>ObjShape = types_TypeName types_Pointer, ObjName = ''P'',
                          ObjPkg = Some exPkg, ObjPos = 90\<rparr>\<rparr>
      else
        \<lparr>IdentName = ''G'', DeclarationURI = ''file:///w/project2/f.go'',
         DeclarationRange = Inr ((4, 5), (4, 6)),
         GetDeclObject = \<lparr>ObjShape = types_Func (Signature None), ObjName = ''G'',
                          ObjPkg = Some exPkg, ObjPos = 30\<rparr>\<rparr>)"

definition exView :: View where
  "exView = \<lparr>Folder = ''file:///w/proj'',
             GetFile = (\<lambda>u. Inr \<lparr>FileURI = u\<rparr>),
             Identifier = (\<lambda>f pos. Inr (exIdent pos)),
             ParseGo = (\<lambda>f. Inr (\<lambda>pos. exPath)),
             CheckPackageHandles = (\<lambda>f. Inr [\<lparr>Check = Inr \<lparr>GetTypes = Some exPkg\<rparr>\<rparr>])\<rparr>"

definition exSymbols :: "DocumentSymbol list" where
  "exSymbols =
     [DocumentSymbol ''T'' protocol_Struct False ((1, 5), (1, 6))
        [DocumentSymbol ''a'' protocol_Field False ((2, 2), (2, 3)) [],
         DocumentSymbol ''b'' protocol_Field False ((3, 2), (3, 3)) []],
      DocumentSymbol ''F'' protocol_Function False ((5, 5), (5, 6)) []]"

definition exServer :: ElasticServer where
  "exServer = \<lparr>ViewOf = (\<lambda>u. exView), InstallGoDependency = False,
               DocumentSymbols = (\<lambda>u. (exSymbols, None)),
               NewURI = (\<lambda>u. if HasPrefix u ''file://'' then u else ''file://'' @ u),
               Filename = (\<lambda>u. if HasPrefix u ''file://'' then drop 7 u else u),
               protocol_NewURI = (\<lambda>u. u),
               NarrowestCheckPackageHandle = (\<lambda>hs. case hs of [] \<Rightarrow> None | h # _ \<Rightarrow> Some h),
               FolderNeedsCleanup = []\<rparr>"

text \<open>A file system: \<^verbatim>\<open>/w/a\<close> holds a bare \<^verbatim>\<open>vendor\<close> directory,
  \<^verbatim>\<open>/w/b\<close> a \<^verbatim>\<open>go.mod\<close> as well, \<^verbatim>\<open>/w/c\<close> a manifest
  \<^verbatim>\<open>vendor/vendor.json\<close>, and \<^verbatim>\<open>/w/d\<close> nothing.\<close>

definition exFS :: FS where
  "exFS = [(''/w'', Directory), (''/w/a'', Directory), (''/w/a/vendor'', Directory),
           (''/w/b'', Directory), (''/w/b/vendor'', Directory), (''/w/b/go.mod'', RegularFile ''module b''),
           (''/w/c'', Directory), (''/w/c/vendor'', Directory), (''/w/c/vendor/vendor.json'', RegularFile ''{}''),
           (''/w/d'', Directory)]"

text \<open>
  A workspace for the module manager: the folder \<^verbatim>\<open>/w/c\<close> holds a manifest
  \<^verbatim>\<open>Gopkg.lock\<close> and a source file \<^verbatim>\<open>main.go\<close> whose package clause has
  no import comment, and no \<^verbatim>\<open>go.mod\<close>. The toolchain of the example finds no
  import comment and no JSON field (as on the files of this workspace: none of them has
  an import comment, and \<^verbatim>\<open>Godeps/Godeps.json\<close> and
  \<^verbatim>\<open>vendor/vendor.json\<close> are missing); its commands change nothing and fail. So
  \<^verbatim>\<open>getModulePath\<close> answers the folder \<^verbatim>\<open>/w/c\<close> with the folder itself,
  and \<open>exModFile\<close> is the \<^verbatim>\<open>go.mod\<close> written for it.
\<close>

definition exWorkspace :: FS where
  "exWorkspace = [(''/'', Directory), (''/w'', Directory), (''/w/c'', Directory),
                  (''/w/c/Gopkg.lock'', RegularFile ''# manifest''),
                  (''/w/c/main.go'', RegularFile ''package main'')]"

definition exToolchain :: Toolchain where
  "exToolchain = \<lparr>importComment = (\<lambda>data. []), jsonField = (\<lambda>data field. []),
                  goModInitCmd = (\<lambda>fs folder modulePath. (fs, Some ''go: not installed'')),
                  goModDownloadCmd = (\<lambda>fs dir. (fs, Some ''go: not installed''))\<rparr>"

text \<open>A workspace folder \<^verbatim>\<open>/w/c\<close> of the workspace above, and the manager that
  \<^verbatim>\<open>ManageDeps\<close> starts from when dependencies are not installed.\<close>

definition exFolder :: WorkspaceFolder where
  "exFolder = \<lparr>FolderURI = ''file:///w/c'', FolderName = ''c''\<rparr>"

definition exManager :: DepsManager where
  "exManager = \<lparr>installGoDeps = False, moduleFolders = [], depsFolderNeedsCleanup = []\<rparr>"

definition exModFile :: "string \<times> Entry" where
  "exModFile = (''/w/c/go.mod'', RegularFile ''module /w/c'')"


section \<open>Lemmas on strings and splitting\<close>


lemma genSplit_Nil: "genSplit [] c k = [[]]"
  by (simp add: genSplit.simps IndexByte_def)

lemma genSplit_Cons:
  assumes "k \<le> 1"
  shows "genSplit (b # s) c k =
     (if b = c then take k [c] # genSplit s c k
      else (case genSplit s c k of [] \<Rightarrow> [] | p # ps \<Rightarrow> (b # p) # ps))"
proof (cases "b = c")
  case True
  from assms have "k = 0 \<or> k = 1" by auto
  with True show ?thesis
    by (subst genSplit.simps) (auto simp: IndexByte_def Let_def)
next
  case False
  show ?thesis
  proof (cases "c \<in> set s")
    case True
    define m where "m = length (takeWhile (\<lambda>x. x \<noteq> c) s)"
    from True have u: "genSplit s c k = take (m + k) s # genSplit (drop (m + 1) s) c k"
      by (subst genSplit.simps) (simp add: IndexByte_def Let_def m_def)
    have n: "nat (1 + int m) = Suc m"
      by arith
    from True False have "genSplit (b # s) c k =
        take (Suc m + k) (b # s) # genSplit (drop (Suc m + 1) (b # s)) c k"
      by (subst genSplit.simps) (simp add: IndexByte_def Let_def m_def [symmetric] n)
    with False u show ?thesis
      by simp
  next
    case notin: False
    then have u: "genSplit s c k = [s]"
      by (subst genSplit.simps) (simp add: IndexByte_def Let_def)
    from notin False have "genSplit (b # s) c k = [b # s]"
      by (subst genSplit.simps) (simp add: IndexByte_def Let_def)
    with False u show ?thesis
      by simp
  qed
qed

lemmas split_eval = SplitAfter_def Split_def genSplit_Nil genSplit_Cons

lemma Count_count_list: "Count s c = int (count_list s c)"
  by (induction s) auto

lemma LastIndex_notin: "c \<notin> set s \<Longrightarrow> LastIndex s c = -1"
  by (induction s) (auto simp: Let_def)

lemma LastIndex_range: "-1 \<le> LastIndex s c \<and> LastIndex s c < int (length s)"
  by (induction s) (auto simp: Let_def)

lemma LastIndex_in: "c \<in> set s \<Longrightarrow> 0 \<le> LastIndex s c"
  by (induction s) (auto simp: Let_def)

lemma afterFinal_Cons:
  "afterFinal c (b # s) = (if c \<in> set s then afterFinal c s else if b = c then s else b # s)"
  by (auto simp: afterFinal_def takeWhile_append takeWhile_eq_all_conv)

lemma afterFinal_append: "c \<notin> set suf \<Longrightarrow> afterFinal c (pre @ c # suf) = suf"
  by (simp add: afterFinal_def takeWhile_append takeWhile_eq_all_conv)

lemma drop_LastIndex: "drop (nat (LastIndex s c + 1)) s = afterFinal c s"
proof (induction s)
  case Nil
  show ?case by (simp add: afterFinal_def)
next
  case (Cons b s)
  show ?case
  proof (cases "c \<in> set s")
    case True
    then have "0 \<le> LastIndex s c" by (rule LastIndex_in)
    then have "nat (LastIndex s c + 1 + 1) = Suc (nat (LastIndex s c + 1))" by arith
    with Cons True \<open>0 \<le> LastIndex s c\<close> show ?thesis
      by (simp add: afterFinal_Cons Let_def)
  next
    case False
    then show ?thesis
      by (simp add: afterFinal_Cons LastIndex_notin Let_def)
  qed
qed

lemma TrimSuffix_suffix:
  "TrimSuffix s suf = (if suffix suf s then take (length s - length suf) s else s)"
proof -
  have "HasSuffix s suf = suffix suf s"
  proof
    assume "HasSuffix s suf"
    then have "drop (length s - length suf) s = suf"
      by (simp add: HasSuffix_def)
    then show "suffix suf s"
      by (metis suffix_drop)
  next
    assume "suffix suf s"
    then show "HasSuffix s suf"
      by (auto simp: HasSuffix_def suffix_def)
  qed
  then show ?thesis
    by (simp add: TrimSuffix_def)
qed

lemma HasPrefix_prefix: "HasPrefix s pre = prefix pre s"
proof
  assume "HasPrefix s pre"
  then have "take (length pre) s = pre"
    by (simp add: HasPrefix_def)
  then show "prefix pre s"
    by (metis take_is_prefix)
next
  assume "prefix pre s"
  then show "HasPrefix s pre"
    by (auto simp: HasPrefix_def prefix_def)
qed

lemma genSplit_in:
  "c \<in> set s \<Longrightarrow> genSplit s c k =
     take (length (takeWhile (\<lambda>b. b \<noteq> c) s) + k) s
       # genSplit (drop (length (takeWhile (\<lambda>b. b \<noteq> c) s) + 1) s) c k"
  by (subst genSplit.simps) (simp add: IndexByte_def Let_def)

lemma genSplit_notin: "c \<notin> set s \<Longrightarrow> genSplit s c k = [s]"
  by (subst genSplit.simps) (simp add: IndexByte_def Let_def)

lemma genSplit_not_Nil: "genSplit s c k \<noteq> []"
  by (subst genSplit.simps) (simp add: Let_def)

lemma Split_not_Nil: "Split s c \<noteq> []"
  by (simp add: Split_def genSplit_not_Nil)

lemma Split_first: "Split s c ! 0 = takeWhile (\<lambda>b. b \<noteq> c) s"
proof (cases "c \<in> set s")
  case True
  then show ?thesis
    by (simp add: Split_def genSplit_in takeWhile_eq_take [symmetric])
next
  case False
  then have "takeWhile (\<lambda>b. b \<noteq> c) s = s"
    by (auto simp: takeWhile_eq_all_conv)
  then have "[s] ! 0 = takeWhile (\<lambda>b. b \<noteq> c) s"
    by (simp only: nth_Cons_0)
  then show ?thesis
    by (simp only: Split_def genSplit_notin [OF False])
qed

lemma validVersionLoop_filter:
  "validVersionLoop valid strs i acc =
     acc @ filter valid (map (takeWhile (\<lambda>b. b \<noteq> Separator)) (drop i strs))"
proof (induction valid strs i acc rule: validVersionLoop.induct)
  case (1 valid strs i validVersion)
  show ?case
  proof (cases "i < length strs")
    case True
    then have d: "drop i strs = strs ! i # drop (Suc i) strs"
      by (simp add: Cons_nth_drop_Suc)
    define seg where "seg = takeWhile (\<lambda>b. b \<noteq> Separator) (strs ! i)"
    define acc where "acc = (if valid seg then validVersion @ [seg] else validVersion)"
    have "validVersionLoop valid strs i validVersion = validVersionLoop valid strs (i + 1) acc"
      using True unfolding seg_def acc_def
      by (subst validVersionLoop.simps) (simp only: Let_def Split_first if_True)
    also have "\<dots> = acc @ filter valid (map (takeWhile (\<lambda>b. b \<noteq> Separator)) (drop (i + 1) strs))"
      using "1.IH" [OF True refl] unfolding Split_first seg_def acc_def by simp
    finally show ?thesis
      by (simp add: d seg_def acc_def)
  next
    case False
    then show ?thesis
      by (subst validVersionLoop.simps) simp
  qed
qed

lemma getPkgVersionFast_code:
  "getPkgVersionFast valid loc =
     (case filter valid (map (takeWhile (\<lambda>b. b \<noteq> Separator)) (tl (SplitAfter loc CHR ''@''))) of
        [v] \<Rightarrow> v | _ \<Rightarrow> [])"
proof -
  define vs where
    "vs = filter valid (map (takeWhile (\<lambda>b. b \<noteq> Separator)) (tl (SplitAfter loc CHR ''@'')))"
  have "getPkgVersionFast valid loc = (if length vs \<noteq> 1 then [] else vs ! 0)"
    unfolding vs_def getPkgVersionFast_def validVersionLoop_filter Let_def
    by (simp only: drop_Suc drop_0 append_Nil One_nat_def)
  also have "\<dots> = (case vs of [v] \<Rightarrow> v | _ \<Rightarrow> [])"
    by (cases vs; cases "tl vs") auto
  finally show ?thesis
    unfolding vs_def .
qed

lemma segmentsAfterAt_notin: "CHR ''@'' \<notin> set s \<Longrightarrow> segmentsAfterAt s = []"
  by (induction s) auto

lemma segmentsAfterAt_append:
  "CHR ''@'' \<notin> set pre \<Longrightarrow>
   segmentsAfterAt (pre @ CHR ''@'' # s) = takeWhile (\<lambda>x. x \<noteq> Separator) s # segmentsAfterAt s"
  by (induction pre) auto

lemma SplitAfter_append:
  "c \<notin> set pre \<Longrightarrow> SplitAfter (pre @ c # s) c = (pre @ [c]) # SplitAfter s c"
  by (simp add: SplitAfter_def genSplit_in takeWhile_append cong: conj_cong)

lemma SplitAfter_notin: "c \<notin> set s \<Longrightarrow> SplitAfter s c = [s]"
  by (simp add: SplitAfter_def genSplit_notin)

lemma first_piece_valid:
  assumes noat: "\<And>v. valid v \<Longrightarrow> CHR ''@'' \<notin> set v"
  shows "filter valid [takeWhile (\<lambda>b. b \<noteq> Separator) (hd (SplitAfter s CHR ''@''))]
       = filter valid [takeWhile (\<lambda>b. b \<noteq> Separator) s]"
proof (cases "CHR ''@'' \<in> set s")
  case False
  then show ?thesis
    by (simp add: SplitAfter_notin)
next
  case True
  then obtain pre suf where s: "s = pre @ CHR ''@'' # suf" and pre: "CHR ''@'' \<notin> set pre"
    by (meson split_list_first)
  then have h: "hd (SplitAfter s CHR ''@'') = pre @ ''@''"
    by (simp add: SplitAfter_append)
  show ?thesis
  proof (cases "Separator \<in> set pre")
    case True
    then have "takeWhile (\<lambda>b. b \<noteq> Separator) (pre @ ''@'') = takeWhile (\<lambda>b. b \<noteq> Separator) pre"
      and "takeWhile (\<lambda>b. b \<noteq> Separator) (pre @ CHR ''@'' # suf) = takeWhile (\<lambda>b. b \<noteq> Separator) pre"
      by (auto simp: takeWhile_append)
    then show ?thesis
      unfolding h unfolding s by simp
  next
    case False
    then have "CHR ''@'' \<in> set (takeWhile (\<lambda>b. b \<noteq> Separator) (pre @ ''@''))"
      and "CHR ''@'' \<in> set (takeWhile (\<lambda>b. b \<noteq> Separator) (pre @ CHR ''@'' # suf))"
      by (simp_all add: takeWhile_append Separator_def)
    then have "\<not> valid (takeWhile (\<lambda>b. b \<noteq> Separator) (pre @ ''@''))"
      and "\<not> valid (takeWhile (\<lambda>b. b \<noteq> Separator) (pre @ CHR ''@'' # suf))"
      using noat by blast+
    then show ?thesis
      unfolding h unfolding s by simp
  qed
qed

lemma segments_agree:
  assumes noat: "\<And>v. valid v \<Longrightarrow> CHR ''@'' \<notin> set v"
  shows "filter valid (map (takeWhile (\<lambda>b. b \<noteq> Separator)) (tl (SplitAfter loc CHR ''@'')))
       = filter valid (segmentsAfterAt loc)"
proof (induction loc rule: length_induct)
  case (1 loc)
  show ?case
  proof (cases "CHR ''@'' \<in> set loc")
    case False
    then show ?thesis
      by (simp add: SplitAfter_notin segmentsAfterAt_notin)
  next
    case True
    then obtain pre suf where s: "loc = pre @ CHR ''@'' # suf" and pre: "CHR ''@'' \<notin> set pre"
      by (meson split_list_first)
    have ne: "SplitAfter suf CHR ''@'' \<noteq> []"
      by (simp add: SplitAfter_def genSplit_not_Nil)
    have "length suf < length loc"
      by (simp add: s)
    with 1 have ih: "filter valid (map (takeWhile (\<lambda>b. b \<noteq> Separator)) (tl (SplitAfter suf CHR ''@'')))
       = filter valid (segmentsAfterAt suf)"
      by blast
    have "filter valid (map (takeWhile (\<lambda>b. b \<noteq> Separator)) (tl (SplitAfter loc CHR ''@'')))
        = filter valid (map (takeWhile (\<lambda>b. b \<noteq> Separator)) (SplitAfter suf CHR ''@''))"
      by (simp add: s SplitAfter_append pre)
    also have "\<dots> = filter valid [takeWhile (\<lambda>b. b \<noteq> Separator) (hd (SplitAfter suf CHR ''@''))]
        @ filter valid (map (takeWhile (\<lambda>b. b \<noteq> Separator)) (tl (SplitAfter suf CHR ''@'')))"
      using ne by (cases "SplitAfter suf CHR ''@''") simp_all
    also have "\<dots> = filter valid [takeWhile (\<lambda>b. b \<noteq> Separator) suf] @ filter valid (segmentsAfterAt suf)"
      by (simp only: ih first_piece_valid [OF noat])
    also have "\<dots> = filter valid (segmentsAfterAt loc)"
      by (simp add: s segmentsAfterAt_append pre)
    finally show ?thesis .
  qed
qed

section \<open>Lemmas on the vendor-mode registry\<close>

lemma findFolder_notin: "folder \<notin> set dirs \<Longrightarrow> findFolder folder dirs i = None"
  by (induction dirs arbitrary: i) auto

lemma findFolder_in:
  "folder \<in> set dirs \<Longrightarrow>
   \<exists>k < length dirs. findFolder folder dirs i = Some (i + int k) \<and> dirs ! k = folder
       \<and> folder \<notin> set (take k dirs)"
proof (induction dirs arbitrary: i)
  case Nil
  then show ?case by simp
next
  case (Cons d dirs)
  show ?case
  proof (cases "folder = d")
    case True
    then show ?thesis
      by (intro exI [of _ 0]) simp
  next
    case False
    with Cons.prems have "folder \<in> set dirs" by simp
    from Cons.IH [OF this, of "i + 1"] obtain k where
      k: "k < length dirs" "findFolder folder dirs (i + 1) = Some (i + 1 + int k)"
         "dirs ! k = folder" "folder \<notin> set (take k dirs)"
      by blast
    with False show ?thesis
      by (intro exI [of _ "Suc k"]) auto
  qed
qed

lemma clear_spec:
  "0 \<le> index \<Longrightarrow> index < int (length xs) \<Longrightarrow>
   clearVendorFolder index xs = butlast (xs[nat index := last xs])"
  by (cases "xs = []") (simp_all add: clearVendorFolder_def Let_def butlast_conv_take last_conv_nth nat_diff_distrib)

lemma clear_noop:
  "index < 0 \<or> int (length xs) \<le> index \<Longrightarrow> clearVendorFolder index xs = xs"
  by (auto simp: clearVendorFolder_def Let_def)

lemmas ex_defs = HasPrefix_def exEnv_def exPkg_def exPath_def exIdent_def exView_def exSymbols_def exServer_def

lemmas kind_defs = protocol_Package_def protocol_Method_def protocol_Field_def
  protocol_Interface_def protocol_Function_def protocol_Variable_def protocol_Constant_def
  protocol_String_def protocol_Number_def protocol_Boolean_def protocol_Array_def
  protocol_Null_def protocol_Struct_def

lemmas path_eval = Join_def Clean_def cleanElem_def Separator_def split_eval

lemma checkVendorFolder_in:
  assumes "folder \<in> set reg"
  shows "\<exists>k<length reg. checkVendorFolder fs folder reg = (int k, reg) \<and> reg ! k = folder
           \<and> folder \<notin> set (take k reg)"
proof -
  from findFolder_in [OF assms, of 0] obtain k where
    "k < length reg" "findFolder folder reg 0 = Some (int k)" "reg ! k = folder"
    "folder \<notin> set (take k reg)"
    by auto
  then show ?thesis
    by (intro exI [of _ k]) (simp add: checkVendorFolder_def)
qed

lemma checkVendorFolder_notin:
  assumes "folder \<notin> set reg"
  shows "checkVendorFolder fs folder reg =
        (if Stat fs (Join [folder, ''go.mod''])
            \<or> (\<exists>name\<in>set DependencyControlSystem. Stat fs (Join [folder, name]))
         then (-1, reg)
         else if Stat fs (Join [folder, ''vendor''])
         then (int (length reg), reg @ [folder])
         else (-1, reg))"
  using assms
  by (simp add: checkVendorFolder_def findFolder_notin list_ex_iff Let_def)

lemma marks_example:
  "mset (clearVendorFolder
          (fst (checkVendorFolder fs B (storeVendorFolder C (storeVendorFolder B (storeVendorFolder A [])))))
          (snd (checkVendorFolder fs B (storeVendorFolder C (storeVendorFolder B (storeVendorFolder A []))))))
     = {#A, C#}"
  by (auto simp: storeVendorFolder_def checkVendorFolder_def clearVendorFolder_def Let_def)

section \<open>Lemmas on the classifier and the handlers\<close>

lemma IsNumeric_eq: "IsNumeric = 26"
  by (simp add: IsNumeric_def IsInteger_def IsFloat_def IsComplex_def)


lemma collectPkgMetadata_prefix:
  assumes "prefix dir path \<or> prefix (goRoot e) path"
  shows "collectPkgMetadata e (Some p) dir path =
           \<lparr>Version = [], Name = PkgName p, RepoURI = PkgPath p\<rparr>"
  using assms by (simp add: collectPkgMetadata_def HasPrefix_prefix)

section \<open>Lemmas on substrings and path elements\<close>

lemma Index_ge: "-1 \<le> Index s substr"
  by (induction s) (auto simp: Let_def)

lemma Contains_iff: "Contains s substr = (\<exists>u w. s = u @ substr @ w)"
proof (induction s)
  case Nil
  show ?case by (simp add: Contains_def)
next
  case (Cons b s)
  show ?case
  proof (cases "HasPrefix (b # s) substr")
    case True
    then have "prefix substr (b # s)"
      by (simp add: HasPrefix_prefix)
    then obtain w where "b # s = [] @ substr @ w"
      by (auto simp: prefix_def)
    then have "\<exists>u w. b # s = u @ substr @ w"
      by blast
    with True show ?thesis
      by (simp add: Contains_def)
  next
    case False
    then have np: "\<not> prefix substr (b # s)"
      by (simp add: HasPrefix_prefix)
    have "(\<exists>u w. b # s = u @ substr @ w) = (\<exists>u w. s = u @ substr @ w)"
    proof
      assume "\<exists>u w. b # s = u @ substr @ w"
      then obtain u w where uw: "b # s = u @ substr @ w"
        by blast
      with np have "u \<noteq> []"
        by (auto simp: prefix_def)
      then obtain u' where "u = b # u'"
        using uw by (cases u) auto
      with uw have "s = u' @ substr @ w"
        by simp
      then show "\<exists>u w. s = u @ substr @ w"
        by blast
    next
      assume "\<exists>u w. s = u @ substr @ w"
      then obtain u w where "s = u @ substr @ w"
        by blast
      then have "b # s = (b # u) @ substr @ w"
        by simp
      then show "\<exists>u w. b # s = u @ substr @ w"
        by blast
    qed
    with False Cons Index_ge [of s substr] show ?thesis
      by (auto simp: Contains_def Let_def)
  qed
qed

lemma Split_Nil: "Split [] c = [[]]"
  by (simp add: Split_def genSplit_Nil)

lemma Split_Cons:
  "Split (b # s) c =
     (if b = c then [] # Split s c
      else (case Split s c of [] \<Rightarrow> [] | p # ps \<Rightarrow> (b # p) # ps))"
  by (simp add: Split_def genSplit_Cons)

lemma Split_notin: "c \<notin> set s \<Longrightarrow> Split s c = [s]"
  by (simp add: Split_def genSplit_notin)

lemma Split_append: "Split (u @ c # v) c = Split u c @ Split v c"
proof (induction u)
  case Nil
  show ?case by (simp add: Split_Cons Split_Nil)
next
  case (Cons b u)
  then show ?case
    by (cases "Split u c") (simp_all add: Split_Cons Split_not_Nil)
qed

lemma strings_Join_Split: "strings_Join (Split s c) [c] = s"
proof (induction s)
  case Nil
  show ?case by (simp add: Split_Nil)
next
  case (Cons b s)
  obtain p ps where ps: "Split s c = p # ps"
    using Split_not_Nil [of s c] by (cases "Split s c") auto
  show ?case
  proof (cases "b = c")
    case True
    with Cons ps show ?thesis
      by (simp add: Split_Cons)
  next
    case False
    with Cons ps show ?thesis
      by (cases ps) (simp_all add: Split_Cons)
  qed
qed

lemma strings_Join_append:
  "xs \<noteq> [] \<Longrightarrow> ys \<noteq> [] \<Longrightarrow>
   strings_Join (xs @ ys) sep = strings_Join xs sep @ sep @ strings_Join ys sep"
proof (induction xs sep rule: strings_Join.induct)
  case (1 sep)
  then show ?case by simp
next
  case (2 x sep)
  then show ?case by (cases ys) simp_all
next
  case (3 x y ys' sep)
  then show ?case by simp
qed

lemma inner_element_iff:
  assumes "c \<notin> set seg"
  shows "(\<exists>u w. s = u @ ([c] @ seg @ [c]) @ w) = (seg \<in> set (butlast (tl (Split s c))))"
proof
  assume "\<exists>u w. s = u @ ([c] @ seg @ [c]) @ w"
  then obtain u w where "s = u @ c # (seg @ c # w)"
    by auto
  then have "Split s c = Split u c @ [seg] @ Split w c"
    using assms by (simp add: Split_append Split_notin)
  moreover obtain a as where "Split u c = a # as"
    using Split_not_Nil [of u c] by (cases "Split u c") auto
  moreover have "Split w c \<noteq> []"
    by (rule Split_not_Nil)
  ultimately show "seg \<in> set (butlast (tl (Split s c)))"
    by (simp add: butlast_append)
next
  assume "seg \<in> set (butlast (tl (Split s c)))"
  then obtain ys zs where "butlast (tl (Split s c)) = ys @ seg # zs"
    by (meson split_list)
  moreover have "tl (Split s c) \<noteq> []"
    using \<open>seg \<in> set (butlast (tl (Split s c)))\<close> by auto
  ultimately have "tl (Split s c) = ys @ seg # zs @ [last (tl (Split s c))]"
    by (metis append_butlast_last_id append_Cons append_assoc)
  moreover have "Split s c \<noteq> []"
    by (rule Split_not_Nil)
  ultimately have sp: "Split s c = (hd (Split s c) # ys) @ ([seg] @ (zs @ [last (tl (Split s c))]))"
    by (metis append_Cons append_Nil list.collapse)
  have "s = strings_Join (Split s c) [c]"
    by (simp add: strings_Join_Split)
  also have "\<dots> = strings_Join (hd (Split s c) # ys) [c] @ [c]
                   @ strings_Join ([seg] @ (zs @ [last (tl (Split s c))])) [c]"
    by (subst sp, rule strings_Join_append) simp_all
  also have "\<dots> = strings_Join (hd (Split s c) # ys) [c] @ [c]
                   @ seg @ [c] @ strings_Join (zs @ [last (tl (Split s c))]) [c]"
    using strings_Join_append [of "[seg]" "zs @ [last (tl (Split s c))]" "[c]"] by simp
  finally have "s = strings_Join (hd (Split s c) # ys) [c] @ ([c] @ seg @ [c])
                   @ strings_Join (zs @ [last (tl (Split s c))]) [c]"
    by simp
  then show "\<exists>u w. s = u @ ([c] @ seg @ [c]) @ w"
    by blast
qed

lemma Contains_folderSkip:
  "Contains path folderSkip = (''vendor'' \<in> set (butlast (tl (Split path Separator))))"
proof -
  have "Separator \<notin> set ''vendor''"
    by (simp add: Separator_def)
  from inner_element_iff [OF this, of path] show ?thesis
    by (simp add: Contains_iff folderSkip_def)
qed

section \<open>Lemmas on the flattened outline and the qualified-name walk\<close>

lemma flatten_outline:
  "flattenDocumentSymbol uri pl symbols prfx parent acc =
     acc @ map (detailOf uri pl) (concat (map (outlineEntries prfx parent) symbols))"
  "flattenSymbol uri pl symbol prfx parent acc =
     acc @ map (detailOf uri pl) (outlineEntries prfx parent symbol)"
proof (induction uri pl symbols prfx parent acc and uri pl symbol prfx parent acc
    rule: flattenDocumentSymbol_flattenSymbol.induct)
  case (1 uri pkgLocator prfx container detailSyms)
  show ?case by simp
next
  case (2 uri pkgLocator symbol symbols prfx container detailSyms)
  then show ?case by simp
next
  case (3 uri pkgLocator name kind deprecated selectionRange children prfx container detailSyms)
  show ?case
  proof (cases "length children > 0")
    case True
    with 3 show ?thesis
      by (simp add: Let_def detailOf_def)
  next
    case False
    then show ?thesis
      by (simp add: Let_def detailOf_def)
  qed
qed

lemma take1_nth0: "names \<noteq> [] \<Longrightarrow> take 1 names ! 0 = names ! 0"
  by (cases names) simp_all

lemma qnameStep_firstNameOnly:
  "qnameStep (firstNameOnly n) (map_option firstNameOnly parent) qname = qnameStep n parent qname"
proof (cases parent)
  case None
  then show ?thesis
    by (cases n) (simp_all add: qnameStep_def)
next
  case (Some p)
  then show ?thesis
    by (cases n; cases p) (simp_all add: qnameStep_def take1_nth0)
qed

lemma qnameLoop_firstNameOnly: "qnameLoop (map firstNameOnly path) qname = qnameLoop path qname"
proof (induction path arbitrary: qname)
  case Nil
  show ?case by simp
next
  case (Cons n path)
  have "(case map firstNameOnly path of [] \<Rightarrow> None | parent # _ \<Rightarrow> Some parent)
      = map_option firstNameOnly (case path of [] \<Rightarrow> None | parent # _ \<Rightarrow> Some parent)"
    by (cases path) simp_all
  with Cons show ?case
    by (simp add: qnameStep_firstNameOnly split: outcome.splits)
qed

lemma Full_symbols:
  assumes "snd (Full e s fullParams) = Returns (resp, None)"
    and "\<not> Contains (Filename s (NewURI s (FullTextDocumentURI fullParams))) folderSkip"
  shows "\<exists>pkgLocator. Symbols resp =
           map (detailOf (FullTextDocumentURI fullParams) pkgLocator)
             (concat (map (outlineEntries [] [])
                (fst (DocumentSymbols s (FullTextDocumentURI fullParams)))))"
  using assms
  by (auto simp: Full_def Let_def constructDetailSymbol_def flatten_outline
      split: sum.splits option.splits prod.splits)

section \<open>Lemmas on the file system and the module manager\<close>

lemmas fs_eval = Stat_def lookupFS_def ReadDir_def childName_def sortByName_def Base_def Dir_def
  Ext_def stripSlashes_def Remove_def CreateWithData_def existDepControlFile_def
  DependencyControlSystem_def HasPrefix_def HasSuffix_def

lemma map_of_filter_key:
  "map_of (filter (\<lambda>(p, info). p \<noteq> k) fs) q = (if q = k then None else map_of fs q)"
  by (induction fs) auto

lemma lookupFS_Remove:
  "lookupFS (fst (Remove fs p)) q = Some e \<Longrightarrow> lookupFS fs q = Some e"
  by (auto simp: Remove_def lookupFS_def map_of_filter_key
      split: option.splits Entry.splits if_splits)

lemma lookupFS_Remove_file:
  "lookupFS fs p = Some (RegularFile d) \<Longrightarrow> lookupFS (fst (Remove fs p)) p = None"
  by (simp add: Remove_def lookupFS_def map_of_filter_key)

lemma Remove_not_file:
  "Stat fs p \<Longrightarrow> lookupFS (fst (Remove fs p)) p \<noteq> Some (RegularFile d)"
  by (auto simp: Remove_def Stat_def lookupFS_def map_of_filter_key
      split: option.splits Entry.splits if_splits)

lemma lookupFS_cleanupLoop:
  "lookupFS (cleanupLoop folders fs) q = Some e \<Longrightarrow> lookupFS fs q = Some e"
proof (induction folders arbitrary: fs)
  case Nil
  then show ?case by simp
next
  case (Cons a folders)
  define fs1 where "fs1 = (if Stat fs (Join [a, ''go.mod''])
                           then fst (Remove fs (Join [a, ''go.mod''])) else fs)"
  define fs2 where "fs2 = (if Stat fs1 (Join [a, ''go.sum''])
                           then fst (Remove fs1 (Join [a, ''go.sum''])) else fs1)"
  have loop: "cleanupLoop (a # folders) fs = cleanupLoop folders fs2"
    by (simp add: fs1_def fs2_def Let_def)
  from Cons.prems have "lookupFS (cleanupLoop folders fs2) q = Some e"
    by (simp only: loop)
  then have "lookupFS fs2 q = Some e"
    by (rule Cons.IH)
  then have "lookupFS fs1 q = Some e"
    unfolding fs2_def by (auto dest: lookupFS_Remove split: if_splits)
  then show "lookupFS fs q = Some e"
    unfolding fs1_def by (auto dest: lookupFS_Remove split: if_splits)
qed

lemma cleanupLoop_removes:
  assumes "folder \<in> set folders" and "name = ''go.mod'' \<or> name = ''go.sum''"
  shows "lookupFS (cleanupLoop folders fs) (Join [folder, name]) \<noteq> Some (RegularFile d)"
  using assms(1)
proof (induction folders arbitrary: fs)
  case Nil
  then show ?case by simp
next
  case (Cons a folders)
  show ?case
  proof (cases "a = folder")
    case False
    with Cons show ?thesis by (simp add: Let_def)
  next
    case True
    define fs1 where "fs1 = (if Stat fs (Join [a, ''go.mod''])
                             then fst (Remove fs (Join [a, ''go.mod''])) else fs)"
    define fs2 where "fs2 = (if Stat fs1 (Join [a, ''go.sum''])
                             then fst (Remove fs1 (Join [a, ''go.sum''])) else fs1)"
    have loop: "cleanupLoop (a # folders) fs = cleanupLoop folders fs2"
      by (simp add: fs1_def fs2_def Let_def)
    have m1: "lookupFS fs1 (Join [a, ''go.mod'']) \<noteq> Some (RegularFile d)"
      using Remove_not_file [of fs "Join [a, ''go.mod'']" d]
      by (auto simp: fs1_def Stat_def)
    have m2: "lookupFS fs2 (Join [a, ''go.mod'']) \<noteq> Some (RegularFile d)"
      using m1 lookupFS_Remove [of fs1 "Join [a, ''go.sum'']" "Join [a, ''go.mod'']" "RegularFile d"]
      by (auto simp: fs2_def)
    have s2: "lookupFS fs2 (Join [a, ''go.sum'']) \<noteq> Some (RegularFile d)"
      using Remove_not_file [of fs1 "Join [a, ''go.sum'']" d]
      by (auto simp: fs2_def Stat_def)
    from m2 s2 assms(2) True
    have "lookupFS fs2 (Join [folder, name]) \<noteq> Some (RegularFile d)"
      by auto
    with lookupFS_cleanupLoop [of folders fs2 "Join [folder, name]" "RegularFile d"]
    show ?thesis
      unfolding loop by blast
  qed
qed

lemma goModInit_records:
  "\<not> installGoDeps depsMgr \<Longrightarrow>
     depsFolderNeedsCleanup (fst (goModInit t depsMgr fs folder))
       = depsFolderNeedsCleanup depsMgr @ [folder]"
  by (simp add: goModInit_def Let_def split: prod.splits)

lemma ManageDeps_server:
  "ManageDeps t s folders options fs registry = Some (Returns (s', r)) \<Longrightarrow> s' = s"
  by (auto simp: ManageDeps_def Let_def split: option.splits outcome.splits prod.splits)

lemma Walk_exWorkspace: "Walk exWorkspace ''/w/c'' = Some (Returns [])"
  by (simp add: Walk_def walkFn_def exWorkspace_def fs_eval path_eval Let_def)

lemma collectUncoveredSrc_exWorkspace:
  "collectUncoveredSrc (Suc (length exWorkspace)) exWorkspace ''/w/c'' = Some ([], [''/w/c''], None)"
  by (simp add: exWorkspace_def fs_eval path_eval Let_def)

lemma SplitOn_exWorkspace: "SplitOn ''/w/c'' (Separator # ''__'') = [''/w/c'']"
  by (subst SplitOn.simps) (simp add: Separator_def HasPrefix_def)

lemma findModulePath_exWorkspace:
  "findModulePath exToolchain exWorkspace ''/w/c''
     = Inl (''cannot determine module path for source directory '' @ ''/w/c''
            @ '' (outside GOPATH, module path must be specified)'')"
  by (simp add: findModulePath_def entriesOf_def dataOf_def findImportComment_def ReadFile_def
      IsRegular_def exToolchain_def exWorkspace_def fs_eval path_eval Let_def)

lemma getModulePath_exWorkspace: "getModulePath exToolchain exWorkspace ''/w/c'' = ''/w/c''"
  unfolding getModulePath_def findModulePath_exWorkspace
  by (simp add: SplitOn_exWorkspace Let_def)

lemma goModInit_exWorkspace:
  "goModInit exToolchain exManager exWorkspace ''/w/c''
     = (exManager\<lparr>depsFolderNeedsCleanup := [''/w/c'']\<rparr>, exWorkspace @ [exModFile], None)"
  unfolding goModInit_def getModulePath_exWorkspace
  by (simp add: constructGoModManually_def exWorkspace_def
      exManager_def exModFile_def fs_eval path_eval Let_def)

lemma collectMetadata_exWorkspace:
  "collectMetadata exToolchain exManager exWorkspace ''/w/c''
     = Some (Returns (exManager\<lparr>depsFolderNeedsCleanup := [''/w/c'']\<rparr>,
                      exWorkspace @ [exModFile], None, [''/w/c'']))"
  unfolding collectMetadata_def Walk_exWorkspace collectUncoveredSrc_exWorkspace
  by (simp add: goModInit_exWorkspace)

lemma run_exWorkspace:
  "run exToolchain exServer exManager exWorkspace exFolder
     = Some (Returns (exManager\<lparr>depsFolderNeedsCleanup := [''/w/c'']\<rparr>,
                      exWorkspace @ [exModFile], None))"
proof -
  have name: "Filename exServer (NewURI exServer (FolderURI exFolder)) = ''/w/c''"
    by (simp add: exServer_def exFolder_def HasPrefix_def)
  have uri: "NewURI exServer ''/w/c'' = FolderURI exFolder"
    by (simp add: exServer_def exFolder_def HasPrefix_def)
  show ?thesis
    unfolding run_def name collectMetadata_exWorkspace
    by (simp add: uri)
qed

lemma Cleanup_example:
  "Cleanup (exServer\<lparr>FolderNeedsCleanup := [''/w/c'']\<rparr>) (exWorkspace @ [exModFile]) = exWorkspace"
proof -
  have j: "Join [''/w/c'', ''go.mod''] = ''/w/c/go.mod''" "Join [''/w/c'', ''go.sum''] = ''/w/c/go.sum''"
    by (simp_all add: path_eval)
  have c: "Clean ''/w/c/go.mod'' = ''/w/c/go.mod''" "Clean ''/w/c/go.sum'' = ''/w/c/go.sum''"
    by (simp_all add: path_eval)
  have m: "Stat (exWorkspace @ [exModFile]) ''/w/c/go.mod''"
    by (simp add: Stat_def lookupFS_def c exWorkspace_def exModFile_def)
  have r: "fst (Remove (exWorkspace @ [exModFile]) ''/w/c/go.mod'') = exWorkspace"
    by (simp add: Remove_def lookupFS_def c exWorkspace_def exModFile_def)
  have n: "\<not> Stat exWorkspace ''/w/c/go.sum''"
    by (simp add: Stat_def lookupFS_def c exWorkspace_def)
  show ?thesis
    by (simp add: Cleanup_def Let_def j m r n)
qed


section \<open>Version normalization and fast version extraction\<close>

text \<open>
  Claim C3. For every raw version string, the normalization in \<^verbatim>\<open>getPkgVersion\<close>
  behaves as follows: a string with exactly two hyphens loses the suffix
  \<^verbatim>\<open>+incompatible\<close> (when it has it) and becomes the part after its final hyphen;
  a string with fewer or more hyphens is left as it is. The three strings of the
  specification normalize as it says. The last conjunct places the normalization in
  \<^verbatim>\<open>getPkgVersion\<close>: it is applied to every non-empty result of the fast
  extraction, and an empty result leaves the version as it was.
\<close>

theorem pseudoVersionRev_normalizes:
  "pseudoVersionRev raw =
     (if count_list raw CHR ''-'' = 2
      then afterFinal CHR ''-'' (TrimSuffix raw ''+incompatible'')
      else raw)
   \<and> TrimSuffix raw ''+incompatible'' =
     (if suffix ''+incompatible'' raw then take (length raw - length ''+incompatible'') raw else raw)
   \<and> pseudoVersionRev ''v0.0.0-20200101000000-abcdef123456'' = ''abcdef123456''
   \<and> pseudoVersionRev ''v1.2.3+incompatible'' = ''v1.2.3+incompatible''
   \<and> pseudoVersionRev ''v1.2.3-pre-deadbeef+incompatible'' = ''deadbeef''
   \<and> Version (getPkgVersion e dir pkgLoc loc) =
     (let rv = getPkgVersionFast (IsValid e) (TrimPrefix loc (Join [pkgMod e, dir]))
      in if rv = [] then Version pkgLoc else pseudoVersionRev rv)"
proof -
  have a: "pseudoVersionRev raw =
     (if count_list raw CHR ''-'' = 2
      then afterFinal CHR ''-'' (TrimSuffix raw ''+incompatible'')
      else raw)"
    by (simp add: pseudoVersionRev_def Count_count_list drop_LastIndex Let_def)
  have b: "TrimSuffix raw ''+incompatible'' =
     (if suffix ''+incompatible'' raw then take (length raw - length ''+incompatible'') raw else raw)"
    by (simp add: TrimSuffix_suffix)
  have c: "pseudoVersionRev ''v0.0.0-20200101000000-abcdef123456'' = ''abcdef123456''"
    by (simp add: pseudoVersionRev_def TrimSuffix_def HasSuffix_def Let_def)
  have d: "pseudoVersionRev ''v1.2.3+incompatible'' = ''v1.2.3+incompatible''"
    by (simp add: pseudoVersionRev_def)
  have f: "pseudoVersionRev ''v1.2.3-pre-deadbeef+incompatible'' = ''deadbeef''"
    by (simp add: pseudoVersionRev_def TrimSuffix_def HasSuffix_def Let_def)
  have g: "Version (getPkgVersion e dir pkgLoc loc) =
     (let rv = getPkgVersionFast (IsValid e) (TrimPrefix loc (Join [pkgMod e, dir]))
      in if rv = [] then Version pkgLoc else pseudoVersionRev rv)"
    by (simp add: getPkgVersion_def getPkgVersionSlow_def Let_def)
  from a b c d f g show ?thesis
    by (intro conjI)
qed

theorem pseudoVersionRev_normalizes_witness:
  "pseudoVersionRev ''v2.0.0-20191109021931-daa7c04131f5+incompatible'' = ''daa7c04131f5''
   \<and> pseudoVersionRev ''v1.4.0-rc.1'' = ''v1.4.0-rc.1''"
  using pseudoVersionRev_normalizes [of "''v2.0.0-20191109021931-daa7c04131f5+incompatible''"]
    pseudoVersionRev_normalizes [of "''v1.4.0-rc.1''"]
  by (simp add: afterFinal_def TrimSuffix_def HasSuffix_def)

text \<open>
  Claim C4. \<^verbatim>\<open>getPkgVersionFast\<close> cuts the path after every \<^verbatim>\<open>@\<close>, takes
  of each piece after the first the part before the first path separator, and keeps the
  valid ones; it returns the kept segment when there is exactly one, and the empty string
  when there is none or more than one (first conjunct). A piece ends with the next
  \<^verbatim>\<open>@\<close> when that comes before a separator; for a validity test that accepts no
  string holding \<^verbatim>\<open>@\<close>, as a semantic version never does, the segments are just
  the texts that follow each \<^verbatim>\<open>@\<close> up to the next path separator (second
  conjunct). The slow fallback fails, always, and when the fast extraction returns the
  empty string the package locator is still returned, with an empty version (last two
  conjuncts).
\<close>

theorem getPkgVersionFast_one_valid_segment:
  "getPkgVersionFast valid loc =
     (case filter valid (map (takeWhile (\<lambda>b. b \<noteq> Separator)) (tl (SplitAfter loc CHR ''@''))) of
        [v] \<Rightarrow> v | _ \<Rightarrow> [])
   \<and> ((\<forall>v. valid v \<longrightarrow> CHR ''@'' \<notin> set v) \<longrightarrow>
        getPkgVersionFast valid loc =
          (case filter valid (segmentsAfterAt loc) of [v] \<Rightarrow> v | _ \<Rightarrow> []))
   \<and> getPkgVersionSlow \<noteq> None
   \<and> (getPkgVersionFast (IsValid e) (TrimPrefix path (Join [pkgMod e, dir])) = [] \<longrightarrow>
        Version (collectPkgMetadata e pkg dir path) = [])"
proof -
  have a: "getPkgVersionFast valid loc =
     (case filter valid (map (takeWhile (\<lambda>b. b \<noteq> Separator)) (tl (SplitAfter loc CHR ''@''))) of
        [v] \<Rightarrow> v | _ \<Rightarrow> [])"
    by (rule getPkgVersionFast_code)
  have b: "getPkgVersionFast valid loc =
          (case filter valid (segmentsAfterAt loc) of [v] \<Rightarrow> v | _ \<Rightarrow> [])"
    if "\<forall>v. valid v \<longrightarrow> CHR ''@'' \<notin> set v"
    using that segments_agree [of valid loc] by (simp add: getPkgVersionFast_code)
  have c: "getPkgVersionSlow \<noteq> None"
    by (simp add: getPkgVersionSlow_def)
  have d: "Version (collectPkgMetadata e pkg dir path) = []"
    if "getPkgVersionFast (IsValid e) (TrimPrefix path (Join [pkgMod e, dir])) = []"
    using that
    by (simp add: collectPkgMetadata_def getPkgVersion_def getPkgVersionSlow_def
        emptyPackageLocator_def Let_def split: option.splits sum.splits)
  from a b c d show ?thesis
    by blast
qed

theorem getPkgVersionFast_one_valid_segment_witness:
  "getPkgVersionFast (IsValid exEnv) ''/github.com/a/b@v1.2.3/c.go'' = ''v1.2.3''
   \<and> getPkgVersionFast (IsValid exEnv) ''/github.com/a/b@v1.2.3/vendor/c@v2.0.0/d.go'' = []
   \<and> getPkgVersionFast (IsValid exEnv) ''/github.com/a/b/c.go'' = []
   \<and> Version (collectPkgMetadata exEnv (Some exPkg) ''/w/proj''
        ''/go/pkg/mod/github.com/a/b@v1.2.3/vendor/c@v2.0.0/d.go'') = []"
proof -
  note T = getPkgVersionFast_one_valid_segment [where valid = "IsValid exEnv" and e = exEnv
      and dir = "''/w/proj''" and pkg = "Some exPkg"
      and path = "''/go/pkg/mod/github.com/a/b@v1.2.3/vendor/c@v2.0.0/d.go''"]
  have v: "\<forall>v. IsValid exEnv v \<longrightarrow> CHR ''@'' \<notin> set v"
    by (auto simp: exEnv_def)
  have seg: "getPkgVersionFast (IsValid exEnv) loc =
      (case filter (IsValid exEnv) (segmentsAfterAt loc) of [v] \<Rightarrow> v | _ \<Rightarrow> [])" for loc
    using T [where loc = loc] v by blast
  have t: "TrimPrefix ''/go/pkg/mod/github.com/a/b@v1.2.3/vendor/c@v2.0.0/d.go''
             (Join [pkgMod exEnv, ''/w/proj''])
           = ''/go/pkg/mod/github.com/a/b@v1.2.3/vendor/c@v2.0.0/d.go''"
    by (simp add: TrimPrefix_def HasPrefix_def pkgMod_def exEnv_def path_eval)
  have a: "getPkgVersionFast (IsValid exEnv) ''/github.com/a/b@v1.2.3/c.go'' = ''v1.2.3''"
    by (subst seg) (simp add: exEnv_def Separator_def)
  have b: "getPkgVersionFast (IsValid exEnv) ''/github.com/a/b@v1.2.3/vendor/c@v2.0.0/d.go'' = []"
    by (subst seg) (simp add: exEnv_def Separator_def)
  have c: "getPkgVersionFast (IsValid exEnv) ''/github.com/a/b/c.go'' = []"
    by (subst seg) (simp add: exEnv_def Separator_def)
  have "getPkgVersionFast (IsValid exEnv)
      ''/go/pkg/mod/github.com/a/b@v1.2.3/vendor/c@v2.0.0/d.go'' = []"
    by (subst seg) (simp add: exEnv_def Separator_def)
  with t T [where loc = "[]"] have d: "Version (collectPkgMetadata exEnv (Some exPkg) ''/w/proj''
        ''/go/pkg/mod/github.com/a/b@v1.2.3/vendor/c@v2.0.0/d.go'') = []"
    by simp
  from a b c d show ?thesis
    by (intro conjI)
qed

section \<open>The vendor-mode registry\<close>

text \<open>
  Claim C7. The three operations of the vendor-mode registry. Marking a folder appends it,
  whatever the registry holds. Checking a folder that the registry holds returns the index
  of its first entry and leaves the registry as it is; checking one it does not hold
  returns -1 when \<^verbatim>\<open>go.mod\<close> or one of the dependency-manifest files exists in
  the folder, else appends the folder and returns its new index when an entry
  \<^verbatim>\<open>vendor\<close> exists in it, else returns -1 (existence is what \<^verbatim>\<open>os.Stat\<close>
  reports). Removing at an index of the registry writes the last entry there and drops
  the last entry; at any other index it changes nothing. After marking \<open>A\<close>, \<open>B\<close> and
  \<open>C\<close> in an empty registry and removing at the index of \<open>B\<close>, the registry holds
  \<open>A\<close> and \<open>C\<close>, once each, in some order.
\<close>

theorem vendor_registry_operations:
  "storeVendorFolder folder reg = reg @ [folder]
   \<and> (folder \<in> set reg \<longrightarrow>
        (\<exists>k<length reg. checkVendorFolder fs folder reg = (int k, reg) \<and> reg ! k = folder
           \<and> folder \<notin> set (take k reg)))
   \<and> (folder \<notin> set reg \<longrightarrow>
        checkVendorFolder fs folder reg =
          (if Stat fs (Join [folder, ''go.mod''])
              \<or> (\<exists>name\<in>set DependencyControlSystem. Stat fs (Join [folder, name]))
           then (-1, reg)
           else if Stat fs (Join [folder, ''vendor''])
           then (int (length reg), reg @ [folder])
           else (-1, reg)))
   \<and> (0 \<le> index \<and> index < int (length reg) \<longrightarrow>
        clearVendorFolder index reg = butlast (reg[nat index := last reg]))
   \<and> (index < 0 \<or> int (length reg) \<le> index \<longrightarrow> clearVendorFolder index reg = reg)
   \<and> mset (clearVendorFolder
          (fst (checkVendorFolder fs B (storeVendorFolder C (storeVendorFolder B (storeVendorFolder A [])))))
          (snd (checkVendorFolder fs B (storeVendorFolder C (storeVendorFolder B (storeVendorFolder A []))))))
       = {#A, C#}"
  using checkVendorFolder_in [of folder reg fs] checkVendorFolder_notin [of folder reg fs]
    clear_spec [of index reg] clear_noop [of index reg] marks_example [of fs B C A]
  by (simp add: storeVendorFolder_def)

theorem vendor_registry_operations_witness:
  "checkVendorFolder exFS ''/w/a'' [''/w/z''] = (1, [''/w/z'', ''/w/a''])
   \<and> checkVendorFolder exFS ''/w/b'' [''/w/z''] = (-1, [''/w/z''])
   \<and> checkVendorFolder exFS ''/w/c'' [''/w/z''] = (-1, [''/w/z''])
   \<and> checkVendorFolder exFS ''/w/d'' [''/w/z''] = (-1, [''/w/z''])
   \<and> fst (checkVendorFolder exFS ''/w/b'' [''/w/z'', ''/w/b'']) = 1
   \<and> clearVendorFolder 0 [''/w/x'', ''/w/y'', ''/w/z''] = [''/w/z'', ''/w/y'']
   \<and> clearVendorFolder 3 [''/w/x'', ''/w/y'', ''/w/z''] = [''/w/x'', ''/w/y'', ''/w/z'']
   \<and> clearVendorFolder (fst (checkVendorFolder exFS ''/w/y''
          (storeVendorFolder ''/w/z'' (storeVendorFolder ''/w/y'' (storeVendorFolder ''/w/x'' [])))))
        (storeVendorFolder ''/w/z'' (storeVendorFolder ''/w/y'' (storeVendorFolder ''/w/x'' [])))
       = [''/w/x'', ''/w/z'']"
proof -
  note T = vendor_registry_operations [where fs = exFS and A = "''/w/x''" and B = "''/w/y''"
      and C = "''/w/z''"]
  have a: "checkVendorFolder exFS ''/w/a'' [''/w/z''] = (1, [''/w/z'', ''/w/a''])"
    using T [where folder = "''/w/a''" and reg = "[''/w/z'']" and index = 0]
    by (simp add: exFS_def Stat_def lookupFS_def DependencyControlSystem_def path_eval)
  have b: "checkVendorFolder exFS ''/w/b'' [''/w/z''] = (-1, [''/w/z''])"
    using T [where folder = "''/w/b''" and reg = "[''/w/z'']" and index = 0]
    by (simp add: exFS_def Stat_def lookupFS_def DependencyControlSystem_def path_eval)
  have c: "checkVendorFolder exFS ''/w/c'' [''/w/z''] = (-1, [''/w/z''])"
    using T [where folder = "''/w/c''" and reg = "[''/w/z'']" and index = 0]
    by (simp add: exFS_def Stat_def lookupFS_def DependencyControlSystem_def path_eval)
  have d: "checkVendorFolder exFS ''/w/d'' [''/w/z''] = (-1, [''/w/z''])"
    using T [where folder = "''/w/d''" and reg = "[''/w/z'']" and index = 0]
    by (simp add: exFS_def Stat_def lookupFS_def DependencyControlSystem_def path_eval)
  have f: "fst (checkVendorFolder exFS ''/w/b'' [''/w/z'', ''/w/b'']) = 1"
    using T [where folder = "''/w/b''" and reg = "[''/w/z'', ''/w/b'']" and index = 0]
    by (auto simp: less_Suc_eq)
  have g: "clearVendorFolder 0 [''/w/x'', ''/w/y'', ''/w/z''] = [''/w/z'', ''/w/y'']"
    using T [where folder = "[]" and index = 0 and reg = "[''/w/x'', ''/w/y'', ''/w/z'']"]
    by simp
  have h: "clearVendorFolder 3 [''/w/x'', ''/w/y'', ''/w/z''] = [''/w/x'', ''/w/y'', ''/w/z'']"
    using T [where folder = "[]" and index = 3 and reg = "[''/w/x'', ''/w/y'', ''/w/z'']"]
    by simp
  have i: "fst (checkVendorFolder exFS ''/w/y'' [''/w/x'', ''/w/y'', ''/w/z'']) = 1"
    using T [where folder = "''/w/y''" and reg = "[''/w/x'', ''/w/y'', ''/w/z'']" and index = 0]
    by (auto simp: less_Suc_eq)
  have j: "clearVendorFolder 1 [''/w/x'', ''/w/y'', ''/w/z''] = [''/w/x'', ''/w/z'']"
    using T [where folder = "[]" and index = 1 and reg = "[''/w/x'', ''/w/y'', ''/w/z'']"]
    by simp
  from a b c d f g h i j show ?thesis
    by (simp add: storeVendorFolder_def)
qed

section \<open>EDefinition\<close>

text \<open>
  The two shapes of a result, by the test of the code. Every successful
  \<^verbatim>\<open>EDefinition\<close> request returns one locator. When the file name of the view's
  folder is a prefix, as a string, of the file name of the declaration, the locator holds
  the location (the URI of the declaration and its range), an empty package locator, and
  no qualified name or kind; the handler has then called \<^verbatim>\<open>ViewOf\<close>,
  \<^verbatim>\<open>GetFile\<close>, \<^verbatim>\<open>Identifier\<close> and the declaration's \<^verbatim>\<open>Range\<close> and
  nothing else, so neither the classifier nor the qualified-name resolver. Otherwise the
  locator holds no location, and holds the qualified name that \<^verbatim>\<open>getQName\<close>
  returns, the kind of the classifier, which is not 0, and the package locator of
  \<^verbatim>\<open>collectPkgMetadata\<close>.
\<close>

theorem EDefinition_result_shapes:
  fixes e s params
  defines "uri \<equiv> NewURI s (TextDocumentURI params)"
  defines "view \<equiv> ViewOf s uri"
  assumes ok: "snd (EDefinition e s params) = Returns (Inr locs)"
  shows "\<exists>f ident declRange.
           GetFile view uri = Inr f
         \<and> Identifier view f (ParamPosition params) = Inr ident
         \<and> DeclarationRange ident = Inr declRange
         \<and> (if HasPrefix (Filename s (DeclarationURI ident)) (Filename s (Folder view))
            then locs = [\<lparr>Qname = [], Kind = 0,
                          Loc = Some \<lparr>LocURI = protocol_NewURI s (DeclarationURI ident),
                                      LocRange = declRange\<rparr>,
                          Package = emptyPackageLocator\<rparr>]
               \<and> fst (EDefinition e s params) =
                   [Call_ViewOf, Call_GetFile uri, Call_Identifier, Call_DeclarationRange]
            else (\<exists>declFile qname.
                   GetFile view (DeclarationURI ident) = Inr declFile
                 \<and> getQName view declFile (GetDeclObject ident)
                      (getSymbolKind (GetDeclObject ident)) = Returns qname
                 \<and> getSymbolKind (GetDeclObject ident) \<noteq> 0
                 \<and> locs = [\<lparr>Qname = qname, Kind = getSymbolKind (GetDeclObject ident),
                            Loc = None,
                            Package = collectPkgMetadata e (ObjPkg (GetDeclObject ident))
                              (Filename s (Folder view)) (Filename s (DeclarationURI ident))\<rparr>]))"
  using ok unfolding uri_def view_def
  by (auto simp: EDefinition_def Let_def split: sum.splits if_splits outcome.splits)

theorem EDefinition_result_shapes_witness:
  "snd (EDefinition exEnv exServer \<lparr>TextDocumentURI = ''file:///w/proj/b.go'', ParamPosition = (0, 3)\<rparr>)
     = Returns (Inr [\<lparr>Qname = [], Kind = 0,
                      Loc = Some \<lparr>LocURI = ''file:///w/proj/a.go'', LocRange = ((7, 5), (7, 10))\<rparr>,
                      Package = emptyPackageLocator\<rparr>])
   \<and> fst (EDefinition exEnv exServer \<lparr>TextDocumentURI = ''file:///w/proj/b.go'', ParamPosition = (0, 3)\<rparr>)
     = [Call_ViewOf, Call_GetFile ''file:///w/proj/b.go'', Call_Identifier, Call_DeclarationRange]
   \<and> snd (EDefinition exEnv exServer \<lparr>TextDocumentURI = ''file:///w/proj/b.go'', ParamPosition = (1, 3)\<rparr>)
     = Returns (Inr [\<lparr>Qname = ''dep.T.a.x'', Kind = protocol_Field, Loc = None,
                      Package = \<lparr>Version = ''v1.2.3'', Name = ''dep'', RepoURI = ''example.com/dep''\<rparr>\<rparr>])"
proof -
  have fast: "getPkgVersionFast (\<lambda>v. v = ''v1.2.3'' \<or> v = ''v2.0.0'')
      ''/go/pkg/mod/example.com/dep@v1.2.3/t.go'' = ''v1.2.3''"
    by (simp add: getPkgVersionFast_code Separator_def split_eval)
  have a: "snd (EDefinition exEnv exServer \<lparr>TextDocumentURI = ''file:///w/proj/b.go'', ParamPosition = (0, 3)\<rparr>)
     = Returns (Inr [\<lparr>Qname = [], Kind = 0,
                      Loc = Some \<lparr>LocURI = ''file:///w/proj/a.go'', LocRange = ((7, 5), (7, 10))\<rparr>,
                      Package = emptyPackageLocator\<rparr>])"
    by (simp add: EDefinition_def ex_defs HasPrefix_def Let_def)
  have b: "snd (EDefinition exEnv exServer \<lparr>TextDocumentURI = ''file:///w/proj/b.go'', ParamPosition = (1, 3)\<rparr>)
     = Returns (Inr [\<lparr>Qname = ''dep.T.a.x'', Kind = protocol_Field, Loc = None,
                      Package = \<lparr>Version = ''v1.2.3'', Name = ''dep'', RepoURI = ''example.com/dep''\<rparr>\<rparr>])"
    by (simp add: EDefinition_def ex_defs HasPrefix_def Let_def kind_defs getQName_def
        collectPkgMetadata_def goRoot_def getPkgVersion_def pkgMod_def TrimPrefix_def
        path_eval fast pseudoVersionRev_def qnameStep_def)
  from EDefinition_result_shapes [OF a] EDefinition_result_shapes [OF b] a b show ?thesis
    by (simp add: ex_defs)
qed

text \<open>
  Claim C1. The shape of the result follows the string test above, not whether the
  declaration's file is inside the workspace root. In the view of the folder
  \<^verbatim>\<open>/w/proj\<close>, a request that resolves to a declaration in
  \<^verbatim>\<open>/w/project2/f.go\<close> succeeds. That file is not inside the root: the elements
  of \<^verbatim>\<open>/w/proj\<close> are not the first elements of its path. Yet the handler takes the
  same-view branch, since \<^verbatim>\<open>/w/proj\<close> is a prefix of the file name as a string:
  the one locator returned holds the location of the declaration and an empty package
  locator, no qualified name and no kind, and the handler has called neither the
  classifier nor the qualified-name resolver. For a declaration outside the root the
  locator should hold the qualified name, the kind and the package locator, and no
  location.
\<close>

theorem EDefinition_outside_root_returns_location:
  "Filename exServer (Folder (ViewOf exServer (NewURI exServer ''file:///w/proj/b.go''))) = ''/w/proj''
   \<and> Filename exServer (DeclarationURI (exIdent (3, 3))) = ''/w/project2/f.go''
   \<and> \<not> insideRoot ''/w/proj'' ''/w/project2/f.go''
   \<and> HasPrefix ''/w/project2/f.go'' ''/w/proj''
   \<and> EDefinition exEnv exServer \<lparr>TextDocumentURI = ''file:///w/proj/b.go'', ParamPosition = (3, 3)\<rparr>
       = ([Call_ViewOf, Call_GetFile ''file:///w/proj/b.go'', Call_Identifier, Call_DeclarationRange],
          Returns (Inr [\<lparr>Qname = [], Kind = 0,
                         Loc = Some \<lparr>LocURI = ''file:///w/project2/f.go'',
                                     LocRange = ((4, 5), (4, 6))\<rparr>,
                         Package = emptyPackageLocator\<rparr>]))"
proof -
  have root: "Filename exServer (Folder (ViewOf exServer (NewURI exServer ''file:///w/proj/b.go'')))
      = ''/w/proj''"
    by (simp add: ex_defs)
  have decl: "Filename exServer (DeclarationURI (exIdent (3, 3))) = ''/w/project2/f.go''"
    by (simp add: ex_defs)
  have outside: "\<not> insideRoot ''/w/proj'' ''/w/project2/f.go''"
    by (simp add: insideRoot_def pathElements_def Separator_def split_eval)
  have pre: "HasPrefix ''/w/project2/f.go'' ''/w/proj''"
    by (simp add: HasPrefix_def)
  have res: "EDefinition exEnv exServer \<lparr>TextDocumentURI = ''file:///w/proj/b.go'', ParamPosition = (3, 3)\<rparr>
       = ([Call_ViewOf, Call_GetFile ''file:///w/proj/b.go'', Call_Identifier, Call_DeclarationRange],
          Returns (Inr [\<lparr>Qname = [], Kind = 0,
                         Loc = Some \<lparr>LocURI = ''file:///w/project2/f.go'',
                                     LocRange = ((4, 5), (4, 6))\<rparr>,
                         Package = emptyPackageLocator\<rparr>]))"
    by (simp add: EDefinition_def ex_defs Let_def)
  from root decl outside pre res show ?thesis
    by simp
qed



text \<open>
  Claim C10. The two tests are tests on strings. When the identifier resolves and its
  declaration has a range, \<^verbatim>\<open>EDefinition\<close> returns the same-view locator exactly
  when the file name of the view's folder is a prefix, as a string, of the file name of
  the declaration. \<^verbatim>\<open>collectPkgMetadata\<close> returns the package's name and import
  path with no version, and asks for no repository root, whenever the workspace folder or
  \<^verbatim>\<open>GOROOT\<close> is a prefix, as a string, of the file name. The folder
  \<^verbatim>\<open>/w/proj\<close> is a prefix of \<^verbatim>\<open>/w/project2/f.go\<close>, though the elements of
  the first path are not a prefix of the elements of the second.
\<close>

theorem same_view_is_string_prefix:
  fixes e s params
  defines "uri \<equiv> NewURI s (TextDocumentURI params)"
  defines "view \<equiv> ViewOf s uri"
  assumes got: "GetFile view uri = Inr f"
    and resolved: "Identifier view f (ParamPosition params) = Inr ident"
    and ranged: "DeclarationRange ident = Inr declRange"
  shows "(snd (EDefinition e s params) =
            Returns (Inr [\<lparr>Qname = [], Kind = 0,
                          Loc = Some \<lparr>LocURI = protocol_NewURI s (DeclarationURI ident),
                                      LocRange = declRange\<rparr>,
                          Package = emptyPackageLocator\<rparr>]))
          = prefix (Filename s (Folder view)) (Filename s (DeclarationURI ident))
       \<and> (prefix dir path \<or> prefix (goRoot e) path \<longrightarrow>
            collectPkgMetadata e (Some p) dir path =
              \<lparr>Version = [], Name = PkgName p, RepoURI = PkgPath p\<rparr>)
       \<and> prefix ''/w/proj'' ''/w/project2/f.go''
       \<and> \<not> prefix (Split ''/w/proj'' Separator) (Split ''/w/project2/f.go'' Separator)"
proof -
  have a: "(snd (EDefinition e s params) =
            Returns (Inr [\<lparr>Qname = [], Kind = 0,
                          Loc = Some \<lparr>LocURI = protocol_NewURI s (DeclarationURI ident),
                                      LocRange = declRange\<rparr>,
                          Package = emptyPackageLocator\<rparr>]))
          = prefix (Filename s (Folder view)) (Filename s (DeclarationURI ident))"
    using assms unfolding uri_def view_def HasPrefix_prefix [symmetric]
    by (auto simp: EDefinition_def Let_def split: sum.splits outcome.splits)
  have b: "prefix ''/w/proj'' ''/w/project2/f.go''"
    by simp
  have c: "\<not> prefix (Split ''/w/proj'' Separator) (Split ''/w/project2/f.go'' Separator)"
    by (simp add: Separator_def split_eval)
  from a b c collectPkgMetadata_prefix [of dir path e p] show ?thesis
    by blast
qed

theorem same_view_is_string_prefix_witness:
  "snd (EDefinition exEnv exServer \<lparr>TextDocumentURI = ''file:///w/proj/b.go'', ParamPosition = (3, 3)\<rparr>)
     = Returns (Inr [\<lparr>Qname = [], Kind = 0,
                      Loc = Some \<lparr>LocURI = ''file:///w/project2/f.go'', LocRange = ((4, 5), (4, 6))\<rparr>,
                      Package = emptyPackageLocator\<rparr>])
   \<and> collectPkgMetadata exEnv (Some exPkg) ''/w/proj'' ''/w/project2/f.go''
     = \<lparr>Version = [], Name = ''dep'', RepoURI = ''example.com/dep''\<rparr>"
  using same_view_is_string_prefix [where e = exEnv and s = exServer
      and params = "\<lparr>TextDocumentURI = ''file:///w/proj/b.go'', ParamPosition = (3, 3)\<rparr>"
      and f = "\<lparr>FileURI = ''file:///w/proj/b.go''\<rparr>" and ident = "exIdent (3, 3)"
      and declRange = "((4, 5), (4, 6))" and dir = "''/w/proj''" and path = "''/w/project2/f.go''"
      and p = exPkg]
  by (simp add: ex_defs)

section \<open>Full\<close>

text \<open>
  Claim C9. A document whose path has \<^verbatim>\<open>vendor\<close> among its directories (an
  element of the path other than the first and the last) gets the empty response from
  \<^verbatim>\<open>Full\<close>: no symbols, no references and no error. The handler has then called
  nothing: not the view, not the type checker, not the package resolution. The test in
  the source is \<^verbatim>\<open>strings.Contains\<close> for \<^verbatim>\<open>/vendor/\<close>, which holds exactly
  for these paths (second conjunct).
\<close>

theorem Full_skips_vendor:
  "(''vendor'' \<in> set (butlast (tl (Split (Filename s (NewURI s (FullTextDocumentURI fullParams))) Separator)))
      \<longrightarrow> Full e s fullParams = ([], Returns (\<lparr>Symbols = [], References = []\<rparr>, None)))
   \<and> Contains path folderSkip = (''vendor'' \<in> set (butlast (tl (Split path Separator))))"
  by (simp add: Contains_folderSkip [symmetric] Full_def)

theorem Full_skips_vendor_witness:
  "''vendor'' \<in> set (butlast (tl (Split ''/w/proj/vendor/github.com/a/b/c.go'' Separator)))
   \<and> Full exEnv exServer \<lparr>FullTextDocumentURI = ''file:///w/proj/vendor/github.com/a/b/c.go'',
        FullReference = True\<rparr>
     = ([], Returns (\<lparr>Symbols = [], References = []\<rparr>, None))"
proof -
  have a: "''vendor'' \<in> set (butlast (tl (Split ''/w/proj/vendor/github.com/a/b/c.go'' Separator)))"
    by (simp add: Separator_def split_eval)
  with Full_skips_vendor [where s = exServer and e = exEnv and path = "[]"
      and fullParams = "\<lparr>FullTextDocumentURI = ''file:///w/proj/vendor/github.com/a/b/c.go'',
        FullReference = True\<rparr>"]
  show ?thesis
    by (simp add: ex_defs)
qed

section \<open>The flattened outline\<close>

text \<open>
  Claim C5, as amended. The flat list of \<^verbatim>\<open>constructDetailSymbol\<close> is the
  pre-order traversal of the outline that \<^verbatim>\<open>DocumentSymbol\<close> returns. The
  qualified name of an entry is the name of the package locator, a dot, and the dotted
  path of the symbol: its own name at top level (or under a parent whose path is empty),
  else the path of its parent, a dot, and its own name. Every entry carries the package
  locator passed in, and the error of \<^verbatim>\<open>DocumentSymbol\<close> is returned beside the
  list. The symbols of a \<^verbatim>\<open>Full\<close> response that comes without an error, for a
  document outside \<^verbatim>\<open>vendor\<close>, are this list for one package locator. As the claim is written, a top-level symbol would have its own name alone as its
  qualified name; the first symbol \<^verbatim>\<open>T\<close> of the example outline has
  \<^verbatim>\<open>dep.T\<close>.
\<close>

theorem constructDetailSymbol_preorder:
  "constructDetailSymbol s uri pkgLocator =
     (map (detailOf uri pkgLocator)
        (concat (map (outlineEntries [] []) (fst (DocumentSymbols s uri)))),
      snd (DocumentSymbols s uri))
   \<and> DetailQname (detailOf uri pkgLocator (path, parent, symbol)) = Name pkgLocator @ ''.'' @ path
   \<and> DetailPackage (detailOf uri pkgLocator (path, parent, symbol)) = pkgLocator
   \<and> (snd (Full e s fullParams) = Returns (resp, None)
        \<and> \<not> Contains (Filename s (NewURI s (FullTextDocumentURI fullParams))) folderSkip
      \<longrightarrow> (\<exists>pkgLoc. Symbols resp =
             map (detailOf (FullTextDocumentURI fullParams) pkgLoc)
               (concat (map (outlineEntries [] [])
                  (fst (DocumentSymbols s (FullTextDocumentURI fullParams)))))))"
  using Full_symbols [of e s fullParams resp]
  by (simp add: constructDetailSymbol_def flatten_outline detailOf_def Let_def
      split: prod.splits)

theorem constructDetailSymbol_preorder_witness:
  "map DetailQname (fst (constructDetailSymbol exServer ''file:///w/proj/b.go''
       \<lparr>Version = [], Name = ''dep'', RepoURI = ''example.com/dep''\<rparr>))
     = [''dep.T'', ''dep.T.a'', ''dep.T.b'', ''dep.F'']
   \<and> map (ContainerName \<circ> Symbol) (fst (constructDetailSymbol exServer ''file:///w/proj/b.go''
       \<lparr>Version = [], Name = ''dep'', RepoURI = ''example.com/dep''\<rparr>))
     = [[], ''T'', ''T'', []]
   \<and> snd (Full exEnv exServer \<lparr>FullTextDocumentURI = ''file:///w/proj/b.go'', FullReference = False\<rparr>)
     = Returns (\<lparr>Symbols = map (detailOf ''file:///w/proj/b.go''
                     \<lparr>Version = [], Name = ''dep'', RepoURI = ''example.com/dep''\<rparr>)
                   (concat (map (outlineEntries [] []) exSymbols)),
                 References = []\<rparr>, None)"
proof -
  note T = constructDetailSymbol_preorder [where s = exServer and uri = "''file:///w/proj/b.go''"
      and pkgLocator = "\<lparr>Version = [], Name = ''dep'', RepoURI = ''example.com/dep''\<rparr>"
      and path = "[]" and parent = "[]" and e = exEnv
      and fullParams = "\<lparr>FullTextDocumentURI = ''file:///w/proj/b.go'', FullReference = False\<rparr>"]
  have eq: "constructDetailSymbol exServer ''file:///w/proj/b.go''
       \<lparr>Version = [], Name = ''dep'', RepoURI = ''example.com/dep''\<rparr>
     = (map (detailOf ''file:///w/proj/b.go'' \<lparr>Version = [], Name = ''dep'', RepoURI = ''example.com/dep''\<rparr>)
         (concat (map (outlineEntries [] []) (fst (DocumentSymbols exServer ''file:///w/proj/b.go'')))),
        snd (DocumentSymbols exServer ''file:///w/proj/b.go''))"
    using T by blast
  have novendor: "\<not> Contains ''/w/proj/b.go'' folderSkip"
    by (simp add: Contains_folderSkip Separator_def split_eval)
  have pl: "collectPkgMetadata exEnv (Some exPkg) ''/w/proj'' ''/w/proj/b.go''
      = \<lparr>Version = [], Name = ''dep'', RepoURI = ''example.com/dep''\<rparr>"
    by (simp add: collectPkgMetadata_def HasPrefix_def exPkg_def)
  have full: "snd (Full exEnv exServer \<lparr>FullTextDocumentURI = ''file:///w/proj/b.go'', FullReference = False\<rparr>)
     = Returns (\<lparr>Symbols = map (detailOf ''file:///w/proj/b.go''
                     \<lparr>Version = [], Name = ''dep'', RepoURI = ''example.com/dep''\<rparr>)
                   (concat (map (outlineEntries [] []) exSymbols)),
                 References = []\<rparr>, None)"
    using novendor pl eq
    by (simp add: Full_def Let_def exServer_def exView_def HasPrefix_def)
  show ?thesis
    unfolding eq using full by (simp add: ex_defs detailOf_def Let_def)
qed

theorem top_level_qname_counterexample:
  "DetailQname (fst (constructDetailSymbol exServer ''file:///w/proj/b.go''
       \<lparr>Version = [], Name = ''dep'', RepoURI = ''example.com/dep''\<rparr>) ! 0)
     \<noteq> dsName (fst (DocumentSymbols exServer ''file:///w/proj/b.go'') ! 0)"
  by (simp add: constructDetailSymbol_def ex_defs Let_def)

section \<open>The first declared name\<close>

text \<open>
  Claim C8. At a struct type whose parent is a field or a variable declaration with at
  least one name, the loop of \<^verbatim>\<open>getQName\<close> prepends the first declared name and
  a dot to the accumulator, whatever names follow it (first two conjuncts). So the
  qualified name depends on no name of a declaration site but the first: the walk over a
  path returns the same as over the path with every field and variable declaration
  reduced to its first name (third conjunct). For \<^verbatim>\<open>a, b struct { x int }\<close> in
  the type \<^verbatim>\<open>T\<close> of package \<^verbatim>\<open>dep\<close>, the member \<^verbatim>\<open>x\<close> resolves to
  \<^verbatim>\<open>dep.T.a.x\<close>.
\<close>

theorem qname_takes_first_declared_name:
  "qnameLoop (ast_StructType # ast_Field (first # others) # rest) qname
     = qnameLoop rest (first @ ''.'' @ qname)
   \<and> qnameLoop (ast_StructType # ast_ValueSpec (first # others) # rest) qname
     = qnameLoop rest (first @ ''.'' @ qname)
   \<and> qnameLoop (map firstNameOnly path) qname = qnameLoop path qname"
  by (simp add: qnameLoop_firstNameOnly qnameStep_def split: list.splits)

theorem qname_takes_first_declared_name_witness:
  "qnameLoop (tl exPath) ''x'' = Returns ''T.a.x''
   \<and> getQName exView \<lparr>FileURI = ''file:///go/pkg/mod/example.com/dep@v1.2.3/t.go''\<rparr>
        (GetDeclObject (exIdent (1, 3))) protocol_Field = Returns ''dep.T.a.x''"
proof -
  have "qnameLoop (tl exPath) ''x''
      = qnameLoop (ast_StructType # ast_Field (''a'' # [''b'']) #
          [ast_OtherNode, ast_StructType, ast_TypeSpec ''T'', ast_OtherNode, ast_OtherNode]) ''x''"
    by (simp add: exPath_def qnameStep_def)
  also have "\<dots> = qnameLoop [ast_OtherNode, ast_StructType, ast_TypeSpec ''T'', ast_OtherNode,
      ast_OtherNode] (''a'' @ ''.'' @ ''x'')"
    using qname_takes_first_declared_name [where first = "''a''" and others = "[''b'']"
        and qname = "''x''" and path = "[]"
        and rest = "[ast_OtherNode, ast_StructType, ast_TypeSpec ''T'', ast_OtherNode, ast_OtherNode]"]
    by simp
  also have "\<dots> = Returns ''T.a.x''"
    by (simp add: qnameStep_def)
  finally have a: "qnameLoop (tl exPath) ''x'' = Returns ''T.a.x''" .
  then show ?thesis
    by (simp add: getQName_def ex_defs kind_defs)
qed

section \<open>Manually written module files and cleanup\<close>

text \<open>
  Claim C6. The folder of a module file written manually is recorded in the cleanup list
  of the module manager, not in that of the server, which \<^verbatim>\<open>ManageDeps\<close> leaves as
  it was; \<^verbatim>\<open>Cleanup\<close> reads the list of the server. In the workspace
  \<^verbatim>\<open>/w/c\<close>, which holds \<^verbatim>\<open>Gopkg.lock\<close> and no \<^verbatim>\<open>go.mod\<close>, with the
  installation of dependencies off: the run of the manager writes
  \<^verbatim>\<open>/w/c/go.mod\<close> and records \<^verbatim>\<open>/w/c\<close> in the manager's list;
  \<^verbatim>\<open>ManageDeps\<close> returns with the file written and the server unchanged, its
  cleanup list empty; \<^verbatim>\<open>Cleanup\<close> then removes nothing, and the written
  \<^verbatim>\<open>go.mod\<close> is still there.
\<close>

theorem manual_go_mod_outlives_session:
  "lookupFS exWorkspace ''/w/c/go.mod'' = None
   \<and> run exToolchain exServer exManager exWorkspace exFolder
       = Some (Returns (exManager\<lparr>depsFolderNeedsCleanup := [''/w/c'']\<rparr>,
                        exWorkspace @ [exModFile], None))
   \<and> ManageDeps exToolchain exServer [exFolder] None exWorkspace []
       = Some (Returns (exServer, [exFolder], exWorkspace @ [exModFile], []))
   \<and> FolderNeedsCleanup exServer = []
   \<and> Cleanup exServer (exWorkspace @ [exModFile]) = exWorkspace @ [exModFile]
   \<and> lookupFS (Cleanup exServer (exWorkspace @ [exModFile])) ''/w/c/go.mod''
       = Some (RegularFile ''module /w/c'')"
proof -
  have before: "lookupFS exWorkspace ''/w/c/go.mod'' = None"
    by (simp add: exWorkspace_def lookupFS_def path_eval)
  have mgr: "\<lparr>installGoDeps = False, moduleFolders = [], depsFolderNeedsCleanup = []\<rparr> = exManager"
    by (simp add: exManager_def)
  have off: "\<not> installGoDeps exManager" "moduleFolders exManager = []"
    by (simp_all add: exManager_def)
  have flag: "InstallGoDependency exServer = False"
    by (simp add: exServer_def)
  have manage: "ManageDeps exToolchain exServer [exFolder] None exWorkspace []
       = Some (Returns (exServer, [exFolder], exWorkspace @ [exModFile], []))"
    unfolding ManageDeps_def flag
    by (simp add: mgr run_exWorkspace downloadDeps_def off)
  have none: "FolderNeedsCleanup exServer = []"
    by (simp add: exServer_def)
  have cleanup: "Cleanup exServer (exWorkspace @ [exModFile]) = exWorkspace @ [exModFile]"
    by (simp add: Cleanup_def none)
  have after: "lookupFS (exWorkspace @ [exModFile]) ''/w/c/go.mod''
       = Some (RegularFile ''module /w/c'')"
    by (simp add: exWorkspace_def exModFile_def lookupFS_def path_eval)
  from before run_exWorkspace manage none cleanup after show ?thesis
    by simp
qed

text \<open>
  What \<^verbatim>\<open>Cleanup\<close> does with the list it reads: after it, no folder of the
  server's list holds a regular file \<^verbatim>\<open>go.mod\<close> or \<^verbatim>\<open>go.sum\<close>, and nothing
  was added to the file system; a path that is missing is passed over and the errors of
  the removals are dropped, so \<^verbatim>\<open>Cleanup\<close> always returns.
\<close>

theorem Cleanup_removes_recorded:
  "(\<forall>folder\<in>set (FolderNeedsCleanup s). \<forall>d.
       lookupFS (Cleanup s fs) (Join [folder, ''go.mod'']) \<noteq> Some (RegularFile d)
     \<and> lookupFS (Cleanup s fs) (Join [folder, ''go.sum'']) \<noteq> Some (RegularFile d))
   \<and> (\<forall>q e. lookupFS (Cleanup s fs) q = Some e \<longrightarrow> lookupFS fs q = Some e)"
  using cleanupLoop_removes [of _ "FolderNeedsCleanup s" _ fs] lookupFS_cleanupLoop [of "FolderNeedsCleanup s" fs]
  by (auto simp: Cleanup_def)

theorem Cleanup_removes_recorded_example:
  "lookupFS (Cleanup (exServer\<lparr>FolderNeedsCleanup := [''/w/c'']\<rparr>) (exWorkspace @ [exModFile]))
       ''/w/c/go.mod'' = None
   \<and> Cleanup (exServer\<lparr>FolderNeedsCleanup := [''/w/c'']\<rparr>) (exWorkspace @ [exModFile]) = exWorkspace"
proof -
  note eq = Cleanup_example
  have j: "Join [''/w/c'', ''go.mod''] = ''/w/c/go.mod''"
    by (simp add: path_eval)
  from Cleanup_removes_recorded [where s = "exServer\<lparr>FolderNeedsCleanup := [''/w/c'']\<rparr>"
      and fs = "exWorkspace @ [exModFile]"]
  have "\<forall>d. lookupFS (Cleanup (exServer\<lparr>FolderNeedsCleanup := [''/w/c'']\<rparr>) (exWorkspace @ [exModFile]))
       ''/w/c/go.mod'' \<noteq> Some (RegularFile d)"
    by (simp add: j)
  moreover have "lookupFS exWorkspace ''/w/c/go.mod'' \<noteq> Some Directory"
    by (simp add: exWorkspace_def lookupFS_def path_eval)
  ultimately show ?thesis
    unfolding eq by (metis Entry.exhaust option.exhaust)
qed


end
